theory Spec2Isabelle
  imports Main "HOL-Library.Word"
begin

section \<open>The paste.run Go client (client.go)\<close>

text \<open>
  A shallow embedding of \<^verbatim>\<open>client.go\<close>: the request configuration and its functional
  options, the multipart producer of an upload, the construction of the three HTTP
  requests (upload, get, getLanguages) and the classification of their responses.

  Go strings are byte strings: \<open>string\<close> here is a list of 8-bit characters. A Go
  function returning \<^verbatim>\<open>(T, error)\<close> returns a sum \<open>error + T\<close> when it belongs to the
  standard library, and the pair itself (the value and \<open>error option\<close>, \<open>None\<close> for
  \<^verbatim>\<open>nil\<close>) when it is one of the client's own entry points, so that what the client
  returns beside an error stays visible.
\<close>

subsection \<open>Errors and panics\<close>

datatype error =
  errorString string  \<comment> \<open>\<^verbatim>\<open>errors.New(msg)\<close>\<close>
  | EOF  \<comment> \<open>\<^verbatim>\<open>io.EOF\<close>\<close>
  | ErrClosedPipe  \<comment> \<open>\<^verbatim>\<open>io.ErrClosedPipe\<close>\<close>
  | Foreign string  \<comment> \<open>an error of the transport, the file system, a payload source or a decoder\<close>

fun Error :: "error \<Rightarrow> string" where
  "Error (errorString s) = s"
| "Error EOF = ''EOF''"
| "Error ErrClosedPipe = ''io: read/write on closed pipe''"
| "Error (Foreign s) = s"

datatype panic = Panic string

subsection \<open>Package strings\<close>

definition HasPrefix :: "string \<Rightarrow> string \<Rightarrow> bool" where
  "HasPrefix s pre = (length pre \<le> length s \<and> take (length pre) s = pre)"

definition HasSuffix :: "string \<Rightarrow> string \<Rightarrow> bool" where
  "HasSuffix s suf = (length suf \<le> length s \<and> drop (length s - length suf) s = suf)"

definition TrimSuffix :: "string \<Rightarrow> string \<Rightarrow> string" where
  "TrimSuffix s suf = (if HasSuffix s suf then take (length s - length suf) s else s)"

text \<open>\<^verbatim>\<open>strings.Index\<close>: the index of the first occurrence, or \<open>-1\<close>.\<close>

fun Index_from :: "nat \<Rightarrow> string \<Rightarrow> string \<Rightarrow> int" where
  "Index_from i [] substr = (if substr = [] then int i else - 1)"
| "Index_from i (c # t) substr =
     (if HasPrefix (c # t) substr then int i else Index_from (Suc i) t substr)"

definition Index :: "string \<Rightarrow> string \<Rightarrow> int" where
  "Index s substr = Index_from 0 s substr"

text \<open>
  \<^verbatim>\<open>strings.ContainsAny\<close>, for a set \<open>chars\<close> of ASCII characters (the only use in the
  client is \<^verbatim>\<open>"./#?"\<close>): a byte of \<open>s\<close> is one of them.
\<close>

definition ContainsAny :: "string \<Rightarrow> string \<Rightarrow> bool" where
  "ContainsAny s chars = list_ex (\<lambda>c. c \<in> set chars) s"

text \<open>
  \<^verbatim>\<open>strings.TrimSpace\<close> removes the leading and the trailing runes that
  \<^verbatim>\<open>unicode.IsSpace\<close> accepts. On a byte string these are the UTF-8 encodings below
  (tab, line feed, vertical tab, form feed, carriage return, space, U+0085, U+00A0,
  U+1680, U+2000 to U+200A, U+2028, U+2029, U+202F, U+205F, U+3000); a byte that does
  not start one of them decodes to a rune that is no space and stops the trimming.
\<close>

definition space_runes :: "string list" where
  "space_runes =
     [[CHR 0x09], [CHR 0x0A], [CHR 0x0B], [CHR 0x0C], [CHR 0x0D], [CHR 0x20],
      [CHR 0xC2, CHR 0x85], [CHR 0xC2, CHR 0xA0],
      [CHR 0xE1, CHR 0x9A, CHR 0x80],
      [CHR 0xE2, CHR 0x80, CHR 0x80], [CHR 0xE2, CHR 0x80, CHR 0x81],
      [CHR 0xE2, CHR 0x80, CHR 0x82], [CHR 0xE2, CHR 0x80, CHR 0x83],
      [CHR 0xE2, CHR 0x80, CHR 0x84], [CHR 0xE2, CHR 0x80, CHR 0x85],
      [CHR 0xE2, CHR 0x80, CHR 0x86], [CHR 0xE2, CHR 0x80, CHR 0x87],
      [CHR 0xE2, CHR 0x80, CHR 0x88], [CHR 0xE2, CHR 0x80, CHR 0x89],
      [CHR 0xE2, CHR 0x80, CHR 0x8A],
      [CHR 0xE2, CHR 0x80, CHR 0xA8], [CHR 0xE2, CHR 0x80, CHR 0xA9],
      [CHR 0xE2, CHR 0x80, CHR 0xAF], [CHR 0xE2, CHR 0x81, CHR 0x9F],
      [CHR 0xE3, CHR 0x80, CHR 0x80]]"

definition leading_space :: "string \<Rightarrow> string option" where
  "leading_space s = find (\<lambda>sp. HasPrefix s sp) space_runes"

definition trailing_space :: "string \<Rightarrow> string option" where
  "trailing_space s = find (\<lambda>sp. HasSuffix s sp) space_runes"

lemma space_runes_nonempty: "sp \<in> set space_runes \<Longrightarrow> 0 < length sp"
  by (auto simp: space_runes_def)

lemma leading_space_shorter:
  assumes "leading_space s = Some sp"
  shows "length (drop (length sp) s) < length s"
proof -
  from assms have "sp \<in> set space_runes" and "HasPrefix s sp"
    by (auto simp: leading_space_def find_Some_iff)
  then have "0 < length sp" and "length sp \<le> length s"
    by (auto simp: HasPrefix_def dest: space_runes_nonempty)
  then show ?thesis by (cases sp) auto
qed

lemma trailing_space_shorter:
  assumes "trailing_space s = Some sp"
  shows "length (take (length s - length sp) s) < length s"
proof -
  from assms have "sp \<in> set space_runes" and "HasSuffix s sp"
    by (auto simp: trailing_space_def find_Some_iff)
  then have "0 < length sp" and "length sp \<le> length s"
    by (auto simp: HasSuffix_def dest: space_runes_nonempty)
  then show ?thesis by (cases sp) auto
qed

function TrimLeftSpace :: "string \<Rightarrow> string" where
  "TrimLeftSpace s =
     (case leading_space s of
        None \<Rightarrow> s
      | Some sp \<Rightarrow> TrimLeftSpace (drop (length sp) s))"
  by pat_completeness auto
termination
  by (relation "measure length") (auto dest: leading_space_shorter)

function TrimRightSpace :: "string \<Rightarrow> string" where
  "TrimRightSpace s =
     (case trailing_space s of
        None \<Rightarrow> s
      | Some sp \<Rightarrow> TrimRightSpace (take (length s - length sp) s))"
  by pat_completeness auto
termination
  by (relation "measure length") (auto dest: trailing_space_shorter)

declare TrimLeftSpace.simps [simp del] TrimRightSpace.simps [simp del]

definition TrimSpace :: "string \<Rightarrow> string" where
  "TrimSpace s = TrimRightSpace (TrimLeftSpace s)"

text \<open>
  \<^verbatim>\<open>url.QueryEscape\<close>: letters, digits and \<^verbatim>\<open>-_.~\<close> stay, a space becomes \<^verbatim>\<open>+\<close>, every
  other byte becomes \<^verbatim>\<open>%XX\<close> in upper-case hexadecimal.
\<close>

definition isAlnum :: "char \<Rightarrow> bool" where
  "isAlnum c =
     (let n = (of_char c :: nat)
      in (97 \<le> n \<and> n \<le> 122) \<or> (65 \<le> n \<and> n \<le> 90) \<or> (48 \<le> n \<and> n \<le> 57))"

definition shouldEscape :: "char \<Rightarrow> bool" where
  "shouldEscape c = (\<not> (isAlnum c \<or> c \<in> set ''-_.~''))"

definition upperhex :: "nat \<Rightarrow> char" where
  "upperhex n = ''0123456789ABCDEF'' ! (n mod 16)"

definition escapeByte :: "char \<Rightarrow> string" where
  "escapeByte c =
     (if c = CHR '' '' then ''+''
      else if shouldEscape c
        then [CHR ''%'', upperhex ((of_char c :: nat) div 16), upperhex (of_char c :: nat)]
      else [c])"

definition QueryEscape :: "string \<Rightarrow> string" where
  "QueryEscape s = concat (map escapeByte s)"

text \<open>
  \<^verbatim>\<open>filepath.Base\<close> with the separator \<^verbatim>\<open>/\<close>: the last element of the path, after the
  trailing separators are dropped; \<^verbatim>\<open>.\<close> for the empty path, \<^verbatim>\<open>/\<close> for a path of
  separators only.
\<close>

definition Base :: "string \<Rightarrow> string" where
  "Base path =
     (if path = [] then ''.''
      else
        let stripped = rev (dropWhile (\<lambda>c. c = CHR ''/'') (rev path));
            element = rev (takeWhile (\<lambda>c. c \<noteq> CHR ''/'') (rev stripped))
        in if element = [] then ''/'' else element)"

subsection \<open>Package net/http: headers, requests, responses\<close>

text \<open>
  \<^verbatim>\<open>textproto.CanonicalMIMEHeaderKey\<close>: a key with a byte that is no header token byte
  is left as it is; otherwise the first letter and every letter after a hyphen are
  made upper case and all the others lower case.
\<close>

definition validHeaderFieldByte :: "char \<Rightarrow> bool" where
  "validHeaderFieldByte c = (isAlnum c \<or> c \<in> set (''!#$%&*+-.^_|~'' @ [CHR 0x27, CHR 0x60]))"

fun canonical_from :: "bool \<Rightarrow> string \<Rightarrow> string" where
  "canonical_from upper [] = []"
| "canonical_from upper (c # cs) =
     (let n = (of_char c :: nat);
          c' = (if upper \<and> 97 \<le> n \<and> n \<le> 122 then char_of (n - 32)
                else if \<not> upper \<and> 65 \<le> n \<and> n \<le> 90 then char_of (n + 32)
                else c)
      in c' # canonical_from (c' = CHR ''-'') cs)"

definition CanonicalMIMEHeaderKey :: "string \<Rightarrow> string" where
  "CanonicalMIMEHeaderKey s =
     (if list_all validHeaderFieldByte s then canonical_from True s else s)"

text \<open>\<^verbatim>\<open>http.Header\<close> is \<^verbatim>\<open>map[string][]string\<close>, keyed by canonical names.\<close>

type_synonym header = "string \<rightharpoonup> string list"

definition Header_Set :: "header \<Rightarrow> string \<Rightarrow> string \<Rightarrow> header" where
  "Header_Set h key v = h(CanonicalMIMEHeaderKey key \<mapsto> [v])"

definition Header_Get :: "header \<Rightarrow> string \<Rightarrow> string" where
  "Header_Get h key =
     (case h (CanonicalMIMEHeaderKey key) of
        None \<Rightarrow> []
      | Some [] \<Rightarrow> []
      | Some (v # _) \<Rightarrow> v)"

text \<open>
  An \<^verbatim>\<open>io.Reader\<close> is what its successive reads deliver: the chunks, and then the
  error that ends it (\<open>None\<close>, or \<open>Some EOF\<close>, for a clean end of stream).
\<close>

datatype 'a reader = Reader (chunks: "'a list") (fails: "error option")

definition ReadAll :: "string reader \<Rightarrow> error + string" where
  "ReadAll r =
     (case fails r of
        None \<Rightarrow> Inr (concat (chunks r))
      | Some e \<Rightarrow> if e = EOF then Inr (concat (chunks r)) else Inl e)"

text \<open>
  What the multipart writer sends down the pipe, one frame per write: the boundary
  line and headers that open a part (its field name, and its file name if it is a
  file part), bytes of the current part's content, and the closing boundary.
\<close>

datatype frame = PartHeader string "string option" | Data string | Trailer

type_synonym ctx = nat

record http_request =
  Method :: string
  URL :: string
  Header :: header
  Body :: "frame reader option"
  Ctx :: "ctx option"

record response =
  StatusCode :: int
  RespHeader :: header
  ContentLength :: "64 word"
  RespBody :: "string reader"

text \<open>
  An \<^verbatim>\<open>http.Client\<close> is its \<^verbatim>\<open>Do\<close>: it takes the request and the state of everything
  outside the process (the network, the server), and returns a response or an error
  and the new state. Nothing else changes that state: an entry point that returns the
  state it was given, whatever the client is, has sent no request.
\<close>

type_synonym 'w client = "http_request \<Rightarrow> 'w \<Rightarrow> (error + response) \<times> 'w"

text \<open>\<^verbatim>\<open>time.Time\<close>, in seconds since January 1 of year 1, UTC: \<^verbatim>\<open>Time{}\<close> is \<open>Time 0\<close>.\<close>

datatype time = Time int

definition zeroTime :: time where
  "zeroTime = Time 0"

definition IsZero :: "time \<Rightarrow> bool" where
  "IsZero t = (t = Time 0)"

subsection \<open>The client's types\<close>

record 'w request =
  author :: string
  title :: string
  desc :: string
  typ' :: string
  tok :: string
  ctx :: "ctx option"
  client :: "'w client option"
  baseURL :: string
  headers :: "string list"
  query :: string

text \<open>\<^verbatim>\<open>&request{}\<close>: every field has its zero value.\<close>

definition request0 :: "'w request" where
  "request0 =
     \<lparr>author = [], title = [], desc = [], typ' = [], tok = [], ctx = None, client = None,
      baseURL = [], headers = [], query = []\<rparr>"

record PasteInfo =
  Content :: "string reader"
  Size :: "64 word"
  Type' :: string
  Language :: string
  Class :: string
  Author' :: string
  Title' :: string
  Created :: time
  Expires :: time

text \<open>\<^verbatim>\<open>PasteInfo{}\<close>; the nil \<^verbatim>\<open>Content\<close> is the reader that delivers nothing.\<close>

definition PasteInfo0 :: PasteInfo where
  "PasteInfo0 =
     \<lparr>Content = Reader [] None, Size = 0, Type' = [], Language = [], Class = [],
      Author' = [], Title' = [], Created = zeroTime, Expires = zeroTime\<rparr>"

record LanguageInfo =
  Name :: string
  Class' :: string
  Mode :: string

text \<open>The anonymous struct that \<^verbatim>\<open>getLanguages\<close> decodes the catalog reply into.\<close>

record languages_reply =
  Q :: string
  Results :: "LanguageInfo list"

text \<open>
  The parts of the Go runtime and standard library that the client calls and this
  theory does not define: they are parameters of every entry point.
  \<^item> \<open>url_Parse\<close>: the error of \<^verbatim>\<open>url.Parse\<close>, by which \<^verbatim>\<open>http.NewRequest\<close> fails;
  \<^item> \<open>DefaultClient\<close>: \<^verbatim>\<open>http.DefaultClient\<close>;
  \<^item> \<open>time_Parse\<close>: \<^verbatim>\<open>time.Parse\<close>, which returns \<^verbatim>\<open>Time{}\<close> beside every error;
  \<^item> \<open>json_Decode\<close>: \<^verbatim>\<open>json.NewDecoder(body).Decode(&x)\<close> for the reply struct;
  \<^item> \<open>os_Open\<close>: \<^verbatim>\<open>os.Open\<close>, giving the file as a reader;
  \<^item> \<open>boundary\<close>: the random boundary that \<^verbatim>\<open>multipart.NewWriter\<close> draws.
\<close>

record 'w stdlib =
  url_Parse :: "string \<Rightarrow> error option"
  DefaultClient :: "'w client"
  time_Parse :: "string \<Rightarrow> string \<Rightarrow> error + time"
  json_Decode :: "string reader \<Rightarrow> error + languages_reply"
  os_Open :: "string \<Rightarrow> error + string reader"
  boundary :: string

subsection \<open>Options (client.go, lines 31 to 108)\<close>

text \<open>An \<^verbatim>\<open>Option\<close> is a \<^verbatim>\<open>func(*request)\<close>: here, the update it makes.\<close>

type_synonym 'w Option = "'w request \<Rightarrow> 'w request"

definition Author :: "string \<Rightarrow> 'w Option" where
  "Author set' = (\<lambda>req. req\<lparr>author := set'\<rparr>)"

definition Title :: "string \<Rightarrow> 'w Option" where
  "Title set' = (\<lambda>req. req\<lparr>title := set'\<rparr>)"

definition Description :: "string \<Rightarrow> 'w Option" where
  "Description set' = (\<lambda>req. req\<lparr>desc := set'\<rparr>)"

definition Type :: "string \<Rightarrow> 'w Option" where
  "Type set' = (\<lambda>req. req\<lparr>typ' := set'\<rparr>)"

definition Token :: "string \<Rightarrow> 'w Option" where
  "Token set' = (\<lambda>req. req\<lparr>tok := set'\<rparr>)"

definition Context :: "ctx option \<Rightarrow> 'w Option" where
  "Context set' = (\<lambda>req. req\<lparr>ctx := set'\<rparr>)"

definition Client :: "'w client option \<Rightarrow> 'w Option" where
  "Client set' = (\<lambda>req. req\<lparr>client := set'\<rparr>)"

definition defaultBaseURL :: string where
  "defaultBaseURL = ''https://api.paste.run/''"

definition BaseURL :: "string \<Rightarrow> 'w Option" where
  "BaseURL set' = (\<lambda>req. req\<lparr>baseURL := set'\<rparr>)"

text \<open>\<^verbatim>\<open>Headers\<close> panics on a list of odd length, before it builds the option.\<close>

definition Headers :: "string list \<Rightarrow> panic + 'w Option" where
  "Headers hs =
     (if length hs mod 2 \<noteq> 0 then Inl (Panic ''invalid headers'')
      else Inr (\<lambda>req. req\<lparr>headers := hs\<rparr>))"

definition Query :: "string \<Rightarrow> 'w Option" where
  "Query set' = (\<lambda>req. req\<lparr>query := set'\<rparr>)"

text \<open>
  The loop that opens \<^verbatim>\<open>upload\<close>, \<^verbatim>\<open>get\<close> and \<^verbatim>\<open>getLanguages\<close>:
  \<^verbatim>\<open>for _, opt := range options { opt(req) }\<close>.
\<close>

fun apply_options :: "'w Option list \<Rightarrow> 'w request \<Rightarrow> 'w request" where
  "apply_options [] req = req"
| "apply_options (opt # options) req = apply_options options (opt req)"

text \<open>
  The type \<^verbatim>\<open>request\<close> is not exported, so outside the package an \<^verbatim>\<open>Option\<close> is
  always the result of one of the ten constructors. \<open>option_call\<close> is such a
  constructor call as the caller writes it; Go evaluates the calls from left to right,
  before the function they are arguments of is entered, and the first panic ends the
  evaluation.
\<close>

datatype 'w option_call =
  CallAuthor string
  | CallTitle string
  | CallDescription string
  | CallType string
  | CallToken string
  | CallContext "ctx option"
  | CallClient "'w client option"
  | CallBaseURL string
  | CallHeaders "string list"
  | CallQuery string

fun eval_call :: "'w option_call \<Rightarrow> panic + 'w Option" where
  "eval_call (CallAuthor s) = Inr (Author s)"
| "eval_call (CallTitle s) = Inr (Title s)"
| "eval_call (CallDescription s) = Inr (Description s)"
| "eval_call (CallType s) = Inr (Type s)"
| "eval_call (CallToken s) = Inr (Token s)"
| "eval_call (CallContext c) = Inr (Context c)"
| "eval_call (CallClient c) = Inr (Client c)"
| "eval_call (CallBaseURL s) = Inr (BaseURL s)"
| "eval_call (CallHeaders hs) = Headers hs"
| "eval_call (CallQuery s) = Inr (Query s)"

fun eval_calls :: "'w option_call list \<Rightarrow> panic + 'w Option list" where
  "eval_calls [] = Inr []"
| "eval_calls (c # cs) =
     (case eval_call c of
        Inl p \<Rightarrow> Inl p
      | Inr opt \<Rightarrow> (case eval_calls cs of Inl p \<Rightarrow> Inl p | Inr opts \<Rightarrow> Inr (opt # opts)))"

text \<open>The values a list of calls gives one field, in the order of the calls.\<close>

definition settings :: "('c \<Rightarrow> 'a option) \<Rightarrow> 'c list \<Rightarrow> 'a list" where
  "settings sel cs = List.map_filter sel cs"

definition last_or :: "'a \<Rightarrow> 'a list \<Rightarrow> 'a" where
  "last_or d xs = (if xs = [] then d else last xs)"

fun sets_author :: "'w option_call \<Rightarrow> string option" where
  "sets_author (CallAuthor s) = Some s"
| "sets_author _ = None"

fun sets_title :: "'w option_call \<Rightarrow> string option" where
  "sets_title (CallTitle s) = Some s"
| "sets_title _ = None"

fun sets_desc :: "'w option_call \<Rightarrow> string option" where
  "sets_desc (CallDescription s) = Some s"
| "sets_desc _ = None"

fun sets_typ :: "'w option_call \<Rightarrow> string option" where
  "sets_typ (CallType s) = Some s"
| "sets_typ _ = None"

fun sets_tok :: "'w option_call \<Rightarrow> string option" where
  "sets_tok (CallToken s) = Some s"
| "sets_tok _ = None"

fun sets_ctx :: "'w option_call \<Rightarrow> ctx option option" where
  "sets_ctx (CallContext c) = Some c"
| "sets_ctx _ = None"

fun sets_client :: "'w option_call \<Rightarrow> 'w client option option" where
  "sets_client (CallClient c) = Some c"
| "sets_client _ = None"

fun sets_baseURL :: "'w option_call \<Rightarrow> string option" where
  "sets_baseURL (CallBaseURL s) = Some s"
| "sets_baseURL _ = None"

fun sets_headers :: "'w option_call \<Rightarrow> string list option" where
  "sets_headers (CallHeaders hs) = Some hs"
| "sets_headers _ = None"

fun sets_query :: "'w option_call \<Rightarrow> string option" where
  "sets_query (CallQuery s) = Some s"
| "sets_query _ = None"

subsection \<open>Packages io and mime/multipart: the pipe and the multipart writer\<close>

text \<open>
  The write side of \<^verbatim>\<open>io.Pipe()\<close>, as the producer sees it. \<open>delivered\<close> are the
  frames the read side has taken; \<open>room\<close> is how many more writes the read side takes
  before it is closed (\<open>None\<close>: it reads to the end); \<open>werr\<close> is the error the write
  side was closed with (\<open>None\<close>: it is open; \<open>Some EOF\<close>: closed without an error).
  A write to a pipe closed on either side returns \<^verbatim>\<open>io.ErrClosedPipe\<close>.
\<close>

record pipe =
  delivered :: "frame list"
  room :: "nat option"
  werr :: "error option"

definition Pipe :: "nat option \<Rightarrow> pipe" where
  "Pipe n = \<lparr>delivered = [], room = n, werr = None\<rparr>"

definition pipe_Write :: "pipe \<Rightarrow> frame \<Rightarrow> error option \<times> pipe" where
  "pipe_Write p fr =
     (if werr p \<noteq> None \<or> room p = Some 0 then (Some ErrClosedPipe, p)
      else (None, p\<lparr>delivered := delivered p @ [fr],
                     room := map_option (\<lambda>n. n - 1) (room p)\<rparr>))"

text \<open>\<^verbatim>\<open>CloseWithError\<close>: a nil error closes with \<^verbatim>\<open>io.EOF\<close>; the first close stays.\<close>

definition CloseWithError :: "pipe \<Rightarrow> error option \<Rightarrow> pipe" where
  "CloseWithError p err =
     (if werr p \<noteq> None then p
      else p\<lparr>werr := Some (case err of None \<Rightarrow> EOF | Some e \<Rightarrow> e)\<rparr>)"

text \<open>What the read side of the pipe delivers to a consumer that reads to the end.\<close>

definition pipe_reader :: "pipe \<Rightarrow> frame reader" where
  "pipe_reader p = Reader (delivered p) (werr p)"

text \<open>
  \<^verbatim>\<open>multipart.Writer\<close> and its last part. The part a caller holds (the result of
  \<^verbatim>\<open>CreateFormField\<close> or \<^verbatim>\<open>CreateFormFile\<close>) is the writer's \<^verbatim>\<open>lastpart\<close> whenever
  the client writes to it, so a write to the part is a write to \<open>lastpart\<close>.
\<close>

record part =
  closed :: bool
  we :: "error option"

record Writer =
  out :: pipe
  lastpart :: "part option"

definition NewWriter :: "pipe \<Rightarrow> Writer" where
  "NewWriter p = \<lparr>out = p, lastpart = None\<rparr>"

text \<open>
  \<^verbatim>\<open>FormDataContentType\<close>; the boundary that \<^verbatim>\<open>NewWriter\<close> draws is made of
  hexadecimal digits and is never quoted.
\<close>

definition FormDataContentType :: "string \<Rightarrow> string" where
  "FormDataContentType b = ''multipart/form-data; boundary='' @ b"

definition CreatePart :: "Writer \<Rightarrow> string \<Rightarrow> string option \<Rightarrow> error option \<times> Writer" where
  "CreatePart mw name filename =
     (let (err, mw1) =
            (case lastpart mw of
               None \<Rightarrow> (None, mw)
             | Some p \<Rightarrow> (we p, mw\<lparr>lastpart := Some (p\<lparr>closed := True\<rparr>)\<rparr>))
      in case err of
           Some e \<Rightarrow> (Some e, mw1)
         | None \<Rightarrow>
             (case pipe_Write (out mw1) (PartHeader name filename) of
                (Some e, p') \<Rightarrow> (Some e, mw1\<lparr>out := p'\<rparr>)
              | (None, p') \<Rightarrow>
                  (None, mw1\<lparr>out := p', lastpart := Some \<lparr>closed = False, we = None\<rparr>\<rparr>)))"

text \<open>
  \<^verbatim>\<open>part.Write\<close> on the last part. The case of no last part does not arise: every
  call follows a \<open>CreatePart\<close> that returned no error.
\<close>

definition part_Write :: "Writer \<Rightarrow> string \<Rightarrow> error option \<times> Writer" where
  "part_Write mw d =
     (case lastpart mw of
        None \<Rightarrow> (None, mw)
      | Some p \<Rightarrow>
          if closed p then (Some (errorString ''multipart: can't write to finished part''), mw)
          else
            (case pipe_Write (out mw) (Data d) of
               (Some e, p') \<Rightarrow> (Some e, mw\<lparr>out := p', lastpart := Some (p\<lparr>we := Some e\<rparr>)\<rparr>)
             | (None, p') \<Rightarrow> (None, mw\<lparr>out := p'\<rparr>)))"

definition WriteField :: "Writer \<Rightarrow> string \<Rightarrow> string \<Rightarrow> error option \<times> Writer" where
  "WriteField mw fieldname v =
     (case CreatePart mw fieldname None of
        (Some e, mw') \<Rightarrow> (Some e, mw')
      | (None, mw') \<Rightarrow> part_Write mw' v)"

definition CreateFormFile :: "Writer \<Rightarrow> string \<Rightarrow> string \<Rightarrow> error option \<times> Writer" where
  "CreateFormFile mw fieldname filename = CreatePart mw fieldname (Some filename)"

definition Writer_Close :: "Writer \<Rightarrow> error option \<times> Writer" where
  "Writer_Close mw =
     (let (err, mw1) =
            (case lastpart mw of
               None \<Rightarrow> (None, mw)
             | Some p \<Rightarrow>
                 (case we p of
                    Some e \<Rightarrow> (Some e, mw\<lparr>lastpart := Some (p\<lparr>closed := True\<rparr>)\<rparr>)
                  | None \<Rightarrow> (None, mw\<lparr>lastpart := None\<rparr>)))
      in case err of
           Some e \<Rightarrow> (Some e, mw1)
         | None \<Rightarrow> (case pipe_Write (out mw1) Trailer of (e, p') \<Rightarrow> (e, mw1\<lparr>out := p'\<rparr>)))"

text \<open>
  \<^verbatim>\<open>io.Copy(f, r)\<close>: every read that delivers bytes is written to the part; a write
  error ends the copy with that error; the end of the source ends it with the
  source's error, which is nil when that is \<^verbatim>\<open>io.EOF\<close>.
\<close>

fun io_Copy :: "Writer \<Rightarrow> string list \<Rightarrow> error option \<Rightarrow> error option \<times> Writer" where
  "io_Copy mw [] er = ((if er = Some EOF then None else er), mw)"
| "io_Copy mw (d # ds) er =
     (if d = [] then io_Copy mw ds er
      else
        (case part_Write mw d of
           (Some ew, mw') \<Rightarrow> (Some ew, mw')
         | (None, mw') \<Rightarrow> io_Copy mw' ds er))"

subsection \<open>The producer of an upload (client.go, lines 120 to 155)\<close>

text \<open>
  The deferred function of the goroutine: it closes the multipart writer and, unless
  the pipe was closed on the way, closes the pipe with the error of that.
\<close>

definition producer_exit :: "bool \<Rightarrow> Writer \<Rightarrow> pipe" where
  "producer_exit bodywClosed mw =
     (case Writer_Close mw of
        (err, mw') \<Rightarrow> if \<not> bodywClosed then CloseWithError (out mw') err else out mw')"

definition write_fields :: "'w request \<Rightarrow> Writer \<Rightarrow> Writer" where
  "write_fields req mw0 =
     (let mw1 = (if author req \<noteq> [] then snd (WriteField mw0 ''author'' (author req)) else mw0);
          mw2 = (if title req \<noteq> [] then snd (WriteField mw1 ''title'' (title req)) else mw1);
          mw3 = (if desc req \<noteq> [] then snd (WriteField mw2 ''desc'' (desc req)) else mw2);
          mw4 = (if typ' req \<noteq> [] then snd (WriteField mw3 ''type'' (typ' req)) else mw3)
      in mw4)"

definition producer :: "'w request \<Rightarrow> string reader \<Rightarrow> pipe \<Rightarrow> pipe" where
  "producer req r bodyw =
     (case CreateFormFile (write_fields req (NewWriter bodyw)) ''file'' ''-'' of
        (Some err, mw) \<Rightarrow> producer_exit True (mw\<lparr>out := CloseWithError (out mw) (Some err)\<rparr>)
      | (None, mw) \<Rightarrow>
          (case io_Copy mw (chunks r) (fails r) of
             (Some err, mw') \<Rightarrow>
               producer_exit True (mw'\<lparr>out := CloseWithError (out mw') (Some err)\<rparr>)
           | (None, mw') \<Rightarrow> producer_exit False mw'))"

subsection \<open>Building and sending requests\<close>

text \<open>
  \<^verbatim>\<open>http.NewRequest\<close>: the methods the client passes (\<^verbatim>\<open>GET\<close>, \<^verbatim>\<open>POST\<close>) are valid, so it
  fails exactly when \<^verbatim>\<open>url.Parse\<close> does; the new request has an empty header.
\<close>

definition NewRequest ::
  "(string \<Rightarrow> error option) \<Rightarrow> string \<Rightarrow> string \<Rightarrow> frame reader option \<Rightarrow> error + http_request"
where
  "NewRequest parse method' u b =
     (case parse u of
        Some err \<Rightarrow> Inl err
      | None \<Rightarrow> Inr \<lparr>Method = method', URL = u, Header = Map.empty, Body = b, Ctx = None\<rparr>)"

text \<open>
  \<^verbatim>\<open>for i := 0; i+1 < len(req.headers); i += 2 { hr.Header.Set(req.headers[i], req.headers[i+1]) }\<close>
\<close>

function set_headers :: "nat \<Rightarrow> string list \<Rightarrow> header \<Rightarrow> header" where
  "set_headers i hs h =
     (if i + 1 < length hs
      then set_headers (i + 2) hs (Header_Set h (hs ! i) (hs ! (i + 1)))
      else h)"
  by pat_completeness auto
termination
  by (relation "measure (\<lambda>(i, hs, h). length hs - i)") auto

declare set_headers.simps [simp del]

definition WithContext :: "http_request \<Rightarrow> ctx \<Rightarrow> http_request" where
  "WithContext hr c = hr\<lparr>Ctx := Some c\<rparr>"

text \<open>
  The last steps that \<^verbatim>\<open>upload\<close>, \<^verbatim>\<open>get\<close> and \<^verbatim>\<open>getLanguages\<close> share: the context, then
  the bearer token.
\<close>

definition with_ctx_and_token :: "'w request \<Rightarrow> http_request \<Rightarrow> http_request" where
  "with_ctx_and_token req hr =
     (let hr1 = (case ctx req of None \<Rightarrow> hr | Some c \<Rightarrow> WithContext hr c)
      in if tok req \<noteq> []
         then hr1\<lparr>Header := Header_Set (Header hr1) ''Authorization'' (''Bearer '' @ tok req)\<rparr>
         else hr1)"

definition client_of :: "'w stdlib \<Rightarrow> 'w request \<Rightarrow> 'w client" where
  "client_of E req = (case client req of None \<Rightarrow> DefaultClient E | Some c \<Rightarrow> c)"

definition resolved_baseURL :: "'w request \<Rightarrow> string" where
  "resolved_baseURL req = (if baseURL req = [] then defaultBaseURL else baseURL req)"

subsection \<open>upload (client.go, lines 110 to 198)\<close>

text \<open>
  Lines 115 to 178, for the resolved configuration: the request that is handed to the
  client. Its body is the read side of the pipe that the producer writes to.
\<close>

definition upload_request :: "'w stdlib \<Rightarrow> string reader \<Rightarrow> 'w request \<Rightarrow> error + http_request" where
  "upload_request E r req =
     (let bodyr = pipe_reader (producer req r (Pipe None));
          contentType = FormDataContentType (boundary E)
      in case NewRequest (url_Parse E) ''POST'' (resolved_baseURL req) (Some bodyr) of
           Inl err \<Rightarrow> Inl err
         | Inr hr \<Rightarrow>
             (let hr1 = hr\<lparr>Header := set_headers 0 (headers req) (Header hr)\<rparr>;
                  hr2 = hr1\<lparr>Header := Header_Set (Header hr1) ''Content-Type'' contentType\<rparr>
              in Inr (with_ctx_and_token req hr2)))"

text \<open>Lines 189 to 197: what \<^verbatim>\<open>upload\<close> returns for a response.\<close>

definition upload_response :: "response \<Rightarrow> string \<times> error option" where
  "upload_response resp =
     (case ReadAll (RespBody resp) of
        Inl err \<Rightarrow> ([], Some err)
      | Inr result \<Rightarrow>
          if StatusCode resp \<noteq> 201 then ([], Some (errorString (TrimSpace result)))
          else (TrimSpace result, None))"

definition upload ::
  "'w stdlib \<Rightarrow> string reader \<Rightarrow> 'w request \<Rightarrow> 'w Option list \<Rightarrow> 'w \<Rightarrow> (string \<times> error option) \<times> 'w"
where
  "upload E r req0 options wld =
     (let req = apply_options options req0
      in case upload_request E r req of
           Inl err \<Rightarrow> (([], Some err), wld)
         | Inr hr \<Rightarrow>
             (case client_of E req hr wld of
                (Inl err, wld') \<Rightarrow> (([], Some err), wld')
              | (Inr resp, wld') \<Rightarrow> (upload_response resp, wld')))"

definition Upload ::
  "'w stdlib \<Rightarrow> string reader \<Rightarrow> 'w Option list \<Rightarrow> 'w \<Rightarrow> (string \<times> error option) \<times> 'w"
where
  "Upload E r options wld = upload E r request0 options wld"

definition UploadFile ::
  "'w stdlib \<Rightarrow> string \<Rightarrow> 'w Option list \<Rightarrow> 'w \<Rightarrow> (string \<times> error option) \<times> 'w"
where
  "UploadFile E path options wld =
     (case os_Open E path of
        Inl err \<Rightarrow> (([], Some err), wld)
      | Inr f \<Rightarrow> upload E f (request0\<lparr>title := Base path\<rparr>) options wld)"

subsection \<open>get (client.go, lines 218 to 289)\<close>

text \<open>Lines 228 to 240: the URL to fetch, or the error of an invalid reference.\<close>

definition get_pasteURL :: "string \<Rightarrow> string \<Rightarrow> error + string" where
  "get_pasteURL paste base =
     (if Index paste ''://'' \<noteq> - 1 then
        (let p = ''https://www.paste.run/''
         in if \<not> HasPrefix paste p \<or> ContainsAny (drop (length p) paste) ''./#?''
            then Inl (errorString ''invalid paste URL'')
            else Inr (TrimSuffix base ''/'' @ ''/'' @ drop (length p) paste @ ''?raw''))
      else
        (if ContainsAny paste ''./#?'' then Inl (errorString ''invalid paste URL'')
         else Inr (TrimSuffix base ''/'' @ ''/'' @ paste @ ''?raw'')))"

definition get_request :: "'w stdlib \<Rightarrow> string \<Rightarrow> 'w request \<Rightarrow> error + http_request" where
  "get_request E paste req =
     (case get_pasteURL paste (resolved_baseURL req) of
        Inl err \<Rightarrow> Inl err
      | Inr pasteURL \<Rightarrow>
          (case NewRequest (url_Parse E) ''GET'' pasteURL None of
             Inl err \<Rightarrow> Inl err
           | Inr hr \<Rightarrow>
               Inr (with_ctx_and_token req
                      (hr\<lparr>Header := set_headers 0 (headers req) (Header hr)\<rparr>))))"

text \<open>The time that \<^verbatim>\<open>t, _ := time.Parse(layout, value)\<close> leaves in \<^verbatim>\<open>t\<close>.\<close>

definition parsed_time :: "'w stdlib \<Rightarrow> string \<Rightarrow> string \<Rightarrow> time" where
  "parsed_time E layout v = (case time_Parse E layout v of Inl _ \<Rightarrow> zeroTime | Inr t \<Rightarrow> t)"

definition TimeFormat :: string where
  "TimeFormat = ''Mon, 02 Jan 2006 15:04:05 GMT''"

text \<open>Lines 268 to 288: what \<^verbatim>\<open>get\<close> returns for a response.\<close>

definition get_response :: "'w stdlib \<Rightarrow> response \<Rightarrow> PasteInfo \<times> error option" where
  "get_response E resp =
     (if StatusCode resp \<noteq> 200 then
        (case ReadAll (RespBody resp) of
           Inl err \<Rightarrow> (PasteInfo0, Some err)
         | Inr result \<Rightarrow> (PasteInfo0, Some (errorString (TrimSpace result))))
      else
        (let created = parsed_time E TimeFormat (Header_Get (RespHeader resp) ''Created-At'');
             expires = parsed_time E TimeFormat (Header_Get (RespHeader resp) ''Expires'')
         in (\<lparr>Content = RespBody resp,
              Size = ContentLength resp,
              Type' = Header_Get (RespHeader resp) ''Content-Type'',
              Language = Header_Get (RespHeader resp) ''Paste-Language'',
              Class = Header_Get (RespHeader resp) ''Paste-Class'',
              Author' = Header_Get (RespHeader resp) ''Created-By'',
              Title' = Header_Get (RespHeader resp) ''Paste-Title'',
              Created = created,
              Expires = expires\<rparr>, None)))"

definition get ::
  "'w stdlib \<Rightarrow> string \<Rightarrow> 'w request \<Rightarrow> 'w Option list \<Rightarrow> 'w \<Rightarrow> (PasteInfo \<times> error option) \<times> 'w"
where
  "get E paste req0 options wld =
     (let req = apply_options options req0
      in case get_request E paste req of
           Inl err \<Rightarrow> ((PasteInfo0, Some err), wld)
         | Inr hr \<Rightarrow>
             (case client_of E req hr wld of
                (Inl err, wld') \<Rightarrow> ((PasteInfo0, Some err), wld')
              | (Inr resp, wld') \<Rightarrow> (get_response E resp, wld')))"

definition Get ::
  "'w stdlib \<Rightarrow> string \<Rightarrow> 'w Option list \<Rightarrow> 'w \<Rightarrow> (PasteInfo \<times> error option) \<times> 'w"
where
  "Get E paste options wld = get E paste request0 options wld"

subsection \<open>getLanguages (client.go, lines 318 to 385)\<close>

definition getLanguages_request :: "'w stdlib \<Rightarrow> 'w request \<Rightarrow> error + http_request" where
  "getLanguages_request E req =
     (let geturl0 = TrimSuffix (resolved_baseURL req) ''/'' @ ''/languages'';
          geturl = (if query req \<noteq> [] then geturl0 @ ''?q='' @ QueryEscape (query req)
                    else geturl0)
      in case NewRequest (url_Parse E) ''GET'' geturl None of
           Inl err \<Rightarrow> Inl err
         | Inr hr \<Rightarrow>
             (let hr1 = hr\<lparr>Header := Header_Set (Header hr) ''Accept'' ''application/json''\<rparr>;
                  hr2 = hr1\<lparr>Header := set_headers 0 (headers req) (Header hr1)\<rparr>
              in Inr (with_ctx_and_token req hr2)))"

definition getLanguages_response :: "'w stdlib \<Rightarrow> response \<Rightarrow> LanguageInfo list \<times> error option" where
  "getLanguages_response E resp =
     (if StatusCode resp \<noteq> 200 then
        (case ReadAll (RespBody resp) of
           Inl err \<Rightarrow> ([], Some err)
         | Inr result \<Rightarrow> ([], Some (errorString (TrimSpace result))))
      else
        (case json_Decode E (RespBody resp) of
           Inl err \<Rightarrow> ([], Some err)
         | Inr x \<Rightarrow> (Results x, None)))"

definition getLanguages ::
  "'w stdlib \<Rightarrow> 'w request \<Rightarrow> 'w Option list \<Rightarrow> 'w \<Rightarrow> (LanguageInfo list \<times> error option) \<times> 'w"
where
  "getLanguages E req0 options wld =
     (let req = apply_options options req0
      in case getLanguages_request E req of
           Inl err \<Rightarrow> (([], Some err), wld)
         | Inr hr \<Rightarrow>
             (case client_of E req hr wld of
                (Inl err, wld') \<Rightarrow> (([], Some err), wld')
              | (Inr resp, wld') \<Rightarrow> (getLanguages_response E resp, wld')))"

definition GetLanguages ::
  "'w stdlib \<Rightarrow> 'w Option list \<Rightarrow> 'w \<Rightarrow> (LanguageInfo list \<times> error option) \<times> 'w"
where
  "GetLanguages E options wld = getLanguages E request0 options wld"

subsection \<open>A call of an entry point, with its option arguments\<close>

text \<open>
  \<^verbatim>\<open>paste.Upload(r, paste.Title("t"), paste.Headers("K", "v"))\<close>: the option
  constructors run first; a panic among them ends the call before the entry point is
  entered, with the outside world as it was.
\<close>

definition call_with ::
  "('w Option list \<Rightarrow> 'w \<Rightarrow> 'a \<times> 'w) \<Rightarrow> 'w option_call list \<Rightarrow> 'w \<Rightarrow> (panic + 'a) \<times> 'w"
where
  "call_with entry calls wld =
     (case eval_calls calls of
        Inl p \<Rightarrow> (Inl p, wld)
      | Inr options \<Rightarrow> (case entry options wld of (res, wld') \<Rightarrow> (Inr res, wld')))"

subsection \<open>Header lists as pairs\<close>

text \<open>
  The pairs of a header list, from the left, without an odd last element, and the
  header that results from setting them in that order: what ``applied as (name, value)
  pairs'' means, to compare with the loop over the indices.
\<close>

fun pairs :: "string list \<Rightarrow> (string \<times> string) list" where
  "pairs (k # v # rest) = (k, v) # pairs rest"
| "pairs _ = []"

definition set_pairs :: "header \<Rightarrow> (string \<times> string) list \<Rightarrow> header" where
  "set_pairs h kvs = foldl (\<lambda>h' (k, v). Header_Set h' k v) h kvs"

text \<open>The values that the pairs give the header \<open>key\<close>, in their order.\<close>

definition values_for :: "string \<Rightarrow> (string \<times> string) list \<Rightarrow> string list" where
  "values_for key kvs =
     map snd (filter (\<lambda>kv. CanonicalMIMEHeaderKey (fst kv) = CanonicalMIMEHeaderKey key) kvs)"

text \<open>\<^verbatim>\<open>hr.Header.Get(key)\<close> of a request.\<close>

definition sent_header :: "string \<Rightarrow> http_request \<Rightarrow> string" where
  "sent_header key hr = Header_Get (Header hr) key"

text \<open>
  The URL of a catalog query, in the words of its description: the base URL without
  its trailing slash, \<^verbatim>\<open>/languages\<close>, and \<^verbatim>\<open>?q=\<close> with the escaped query if there is one.
\<close>

definition languages_url :: "'w request \<Rightarrow> string" where
  "languages_url req =
     TrimSuffix (resolved_baseURL req) ''/'' @ ''/languages''
       @ (if query req = [] then [] else ''?q='' @ QueryEscape (query req))"

subsection \<open>The parts of a multipart body\<close>

text \<open>
  What a reader of the body finds: the parts in the order of their headers, each with
  its field name, its file name if it has one, and the bytes written between its
  header and the next header or the closing boundary. \<open>split_parts\<close> returns the
  bytes that come before the first header as well.
\<close>

fun split_parts :: "frame list \<Rightarrow> string \<times> (string \<times> string option \<times> string) list" where
  "split_parts [] = ([], [])"
| "split_parts (Data d # fs) = (case split_parts fs of (c, ps) \<Rightarrow> (d @ c, ps))"
| "split_parts (PartHeader n f # fs) = (case split_parts fs of (c, ps) \<Rightarrow> ([], (n, f, c) # ps))"
| "split_parts (Trailer # fs) = ([], snd (split_parts fs))"

definition parts_of :: "frame list \<Rightarrow> (string \<times> string option \<times> string) list" where
  "parts_of fs = snd (split_parts fs)"

text \<open>\<^verbatim>\<open>hr.Body\<close> of a request, as parts.\<close>

definition sent_parts :: "http_request \<Rightarrow> (string \<times> string option \<times> string) list" where
  "sent_parts hr = (case Body hr of None \<Rightarrow> [] | Some b \<Rightarrow> parts_of (chunks b))"

text \<open>
  The frames and the part of a text field, which is left out when its value is empty,
  and the frames of a body up to its closing boundary, for a payload that arrives in
  the chunks \<open>ds\<close>.
\<close>

definition field_frames :: "string \<Rightarrow> string \<Rightarrow> frame list" where
  "field_frames n v = (if v = [] then [] else [PartHeader n None, Data v])"

definition field_part :: "string \<Rightarrow> string \<Rightarrow> (string \<times> string option \<times> string) list" where
  "field_part n v = (if v = [] then [] else [(n, None, v)])"

definition body_frames :: "'w request \<Rightarrow> string list \<Rightarrow> frame list" where
  "body_frames req ds =
     field_frames ''author'' (author req) @ field_frames ''title'' (title req)
       @ field_frames ''desc'' (desc req) @ field_frames ''type'' (typ' req)
       @ [PartHeader ''file'' (Some ''-'')] @ map Data (filter (\<lambda>d. d \<noteq> []) ds)"

text \<open>
  The state of a multipart writer whose pipe has delivered the frames \<open>fs\<close>, is open
  and is read to the end, and whose last part, if any, is open and has seen no error.
\<close>

definition flowing :: "Writer \<Rightarrow> frame list \<Rightarrow> bool" where
  "flowing mw fs \<longleftrightarrow>
     delivered (out mw) = fs \<and> room (out mw) = None \<and> werr (out mw) = None
     \<and> (case lastpart mw of None \<Rightarrow> True | Some p \<Rightarrow> we p = None \<and> \<not> closed p)"

subsection \<open>An instance of the parameters\<close>

text \<open>
  For evaluating the entry points on concrete inputs: the outside world is the list of
  the requests sent so far, a client that records the request it is given and answers
  with a fixed result, and a standard library that rejects URLs with a control
  character, parses one date, decodes one catalog reply and knows one file.
\<close>

definition quoted :: "string \<Rightarrow> string" where
  "quoted s = CHR 0x22 # s @ [CHR 0x22]"

definition example_catalog :: string where
  "example_catalog =
     ''{'' @ quoted ''results'' @ '':[{'' @ quoted ''name'' @ '':'' @ quoted ''C++'' @ '',''
       @ quoted ''class'' @ '':'' @ quoted ''cpp'' @ ''},{'' @ quoted ''name'' @ '':''
       @ quoted ''C'' @ '','' @ quoted ''class'' @ '':'' @ quoted ''c'' @ ''}]}''"

definition recording_client :: "(error + response) \<Rightarrow> http_request list client" where
  "recording_client answer = (\<lambda>hr sent. (answer, sent @ [hr]))"

definition example_stdlib :: "(error + response) \<Rightarrow> http_request list stdlib" where
  "example_stdlib answer =
     \<lparr>url_Parse = (\<lambda>u. if list_ex (\<lambda>c. (of_char c :: nat) < 32) u
                        then Some (Foreign ''net/url: invalid control character in URL'')
                        else None),
      DefaultClient = recording_client answer,
      time_Parse = (\<lambda>layout v.
         if v = ''Sun, 06 Nov 1994 08:49:37 GMT'' then Inr (Time 62919708577)
         else Inl (Foreign ''parsing time: cannot parse'')),
      json_Decode = (\<lambda>b.
         case ReadAll b of
           Inl e \<Rightarrow> Inl e
         | Inr s \<Rightarrow>
             if s = example_catalog
             then Inr \<lparr>Q = [], Results = [\<lparr>Name = ''C++'', Class' = ''cpp'', Mode = []\<rparr>,
                                            \<lparr>Name = ''C'', Class' = ''c'', Mode = []\<rparr>]\<rparr>
             else Inl (Foreign ''invalid character'')),
      os_Open = (\<lambda>path.
         if path = ''/tmp/notes.txt'' then Inr (Reader [''hello''] None)
         else Inl (Foreign ''open: no such file or directory'')),
      boundary = ''0123456789abcdef''\<rparr>"

definition example_response :: "int \<Rightarrow> header \<Rightarrow> string \<Rightarrow> response" where
  "example_response status h b =
     \<lparr>StatusCode = status, RespHeader = h, ContentLength = of_nat (length b),
      RespBody = Reader [b] None\<rparr>"

text \<open>A response whose body delivers \<open>b\<close> and then fails with \<open>err\<close>.\<close>

definition example_broken_response :: "int \<Rightarrow> string \<Rightarrow> error \<Rightarrow> response" where
  "example_broken_response status b err =
     \<lparr>StatusCode = status, RespHeader = Map.empty, ContentLength = - 1,
      RespBody = Reader [b] (Some err)\<rparr>"

section \<open>Properties\<close>

subsection \<open>Resolving the configuration\<close>

lemma settings_Nil: "settings sel [] = []"
  by (simp add: settings_def List.map_filter_simps)

lemma settings_Cons:
  "settings sel (c # cs) =
     (case sel c of None \<Rightarrow> settings sel cs | Some v \<Rightarrow> v # settings sel cs)"
  by (simp add: settings_def List.map_filter_simps split: option.splits)

lemma last_or_Nil: "last_or d [] = d"
  by (simp add: last_or_def)

lemma last_or_Cons: "last_or d (v # xs) = last_or v xs"
  by (simp add: last_or_def)

lemma eval_calls_Cons_Inr:
  "eval_calls (c # cs) = Inr opts \<Longrightarrow>
     \<exists>opt opts'. eval_call c = Inr opt \<and> eval_calls cs = Inr opts' \<and> opts = opt # opts'"
  by (auto split: sum.splits)

text \<open>
  If every option either leaves a field as it is or sets it to the value its call
  names, the resolved field is the value of the last call that names one.
\<close>

lemma resolve_field:
  assumes step: "\<And>c opt req. eval_call c = Inr opt \<Longrightarrow>
                   f (opt req) = (case sel c of None \<Rightarrow> f req | Some v \<Rightarrow> v)"
  shows "eval_calls cs = Inr opts \<Longrightarrow>
           f (apply_options opts base) = last_or (f base) (settings sel cs)"
proof (induction cs arbitrary: opts base)
  case Nil
  then show ?case by (simp add: settings_Nil last_or_Nil)
next
  case (Cons c cs)
  from Cons.prems obtain opt opts' where
    c: "eval_call c = Inr opt" and cs: "eval_calls cs = Inr opts'" and opts: "opts = opt # opts'"
    by (blast dest: eval_calls_Cons_Inr)
  have "f (apply_options opts base) = last_or (f (opt base)) (settings sel cs)"
    using Cons.IH [OF cs] by (simp add: opts)
  also have "\<dots> = last_or (f base) (settings sel (c # cs))"
    by (simp add: step [OF c] settings_Cons last_or_Cons split: option.splits)
  finally show ?case .
qed

lemma Headers_Inr: "Headers hs = Inr opt \<Longrightarrow> opt = (\<lambda>req. req\<lparr>headers := hs\<rparr>)"
  by (auto simp: Headers_def split: if_splits)

lemmas option_defs =
  Author_def Title_def Description_def Type_def Token_def Context_def Client_def
  BaseURL_def Query_def

lemma step_author:
  "eval_call c = Inr opt \<Longrightarrow>
     author (opt req) = (case sets_author c of None \<Rightarrow> author req | Some v \<Rightarrow> v)"
  by (cases c) (auto simp: option_defs dest: Headers_Inr)

lemma step_title:
  "eval_call c = Inr opt \<Longrightarrow>
     title (opt req) = (case sets_title c of None \<Rightarrow> title req | Some v \<Rightarrow> v)"
  by (cases c) (auto simp: option_defs dest: Headers_Inr)

lemma step_desc:
  "eval_call c = Inr opt \<Longrightarrow>
     desc (opt req) = (case sets_desc c of None \<Rightarrow> desc req | Some v \<Rightarrow> v)"
  by (cases c) (auto simp: option_defs dest: Headers_Inr)

lemma step_typ:
  "eval_call c = Inr opt \<Longrightarrow>
     typ' (opt req) = (case sets_typ c of None \<Rightarrow> typ' req | Some v \<Rightarrow> v)"
  by (cases c) (auto simp: option_defs dest: Headers_Inr)

lemma step_tok:
  "eval_call c = Inr opt \<Longrightarrow>
     tok (opt req) = (case sets_tok c of None \<Rightarrow> tok req | Some v \<Rightarrow> v)"
  by (cases c) (auto simp: option_defs dest: Headers_Inr)

lemma step_ctx:
  "eval_call c = Inr opt \<Longrightarrow>
     ctx (opt req) = (case sets_ctx c of None \<Rightarrow> ctx req | Some v \<Rightarrow> v)"
  by (cases c) (auto simp: option_defs dest: Headers_Inr)

lemma step_client:
  "eval_call c = Inr opt \<Longrightarrow>
     client (opt req) = (case sets_client c of None \<Rightarrow> client req | Some v \<Rightarrow> v)"
  by (cases c) (auto simp: option_defs dest: Headers_Inr)

lemma step_baseURL:
  "eval_call c = Inr opt \<Longrightarrow>
     baseURL (opt req) = (case sets_baseURL c of None \<Rightarrow> baseURL req | Some v \<Rightarrow> v)"
  by (cases c) (auto simp: option_defs dest: Headers_Inr)

lemma step_headers:
  "eval_call c = Inr opt \<Longrightarrow>
     headers (opt req) = (case sets_headers c of None \<Rightarrow> headers req | Some v \<Rightarrow> v)"
  by (cases c) (auto simp: option_defs dest: Headers_Inr)

lemma step_query:
  "eval_call c = Inr opt \<Longrightarrow>
     query (opt req) = (case sets_query c of None \<Rightarrow> query req | Some v \<Rightarrow> v)"
  by (cases c) (auto simp: option_defs dest: Headers_Inr)

lemma apply_options_append:
  "apply_options (xs @ ys) base = apply_options ys (apply_options xs base)"
  by (induction xs arbitrary: base) simp_all

lemma resolved_author:
  "eval_calls cs = Inr opts \<Longrightarrow>
     author (apply_options opts base) = last_or (author base) (settings sets_author cs)"
  by (rule resolve_field [where f = author and sel = sets_author]) (rule step_author)

lemma resolved_title:
  "eval_calls cs = Inr opts \<Longrightarrow>
     title (apply_options opts base) = last_or (title base) (settings sets_title cs)"
  by (rule resolve_field [where f = title and sel = sets_title]) (rule step_title)

lemma resolved_desc:
  "eval_calls cs = Inr opts \<Longrightarrow>
     desc (apply_options opts base) = last_or (desc base) (settings sets_desc cs)"
  by (rule resolve_field [where f = desc and sel = sets_desc]) (rule step_desc)

lemma resolved_typ:
  "eval_calls cs = Inr opts \<Longrightarrow>
     typ' (apply_options opts base) = last_or (typ' base) (settings sets_typ cs)"
  by (rule resolve_field [where f = typ' and sel = sets_typ]) (rule step_typ)

lemma resolved_tok:
  "eval_calls cs = Inr opts \<Longrightarrow>
     tok (apply_options opts base) = last_or (tok base) (settings sets_tok cs)"
  by (rule resolve_field [where f = tok and sel = sets_tok]) (rule step_tok)

lemma resolved_ctx:
  "eval_calls cs = Inr opts \<Longrightarrow>
     ctx (apply_options opts base) = last_or (ctx base) (settings sets_ctx cs)"
  by (rule resolve_field [where f = ctx and sel = sets_ctx]) (rule step_ctx)

lemma resolved_client:
  "eval_calls cs = Inr opts \<Longrightarrow>
     client (apply_options opts base) = last_or (client base) (settings sets_client cs)"
  by (rule resolve_field [where f = client and sel = sets_client]) (rule step_client)

lemma resolved_baseURL:
  "eval_calls cs = Inr opts \<Longrightarrow>
     baseURL (apply_options opts base) = last_or (baseURL base) (settings sets_baseURL cs)"
  by (rule resolve_field [where f = baseURL and sel = sets_baseURL]) (rule step_baseURL)

lemma resolved_headers:
  "eval_calls cs = Inr opts \<Longrightarrow>
     headers (apply_options opts base) = last_or (headers base) (settings sets_headers cs)"
  by (rule resolve_field [where f = headers and sel = sets_headers]) (rule step_headers)

lemma resolved_query:
  "eval_calls cs = Inr opts \<Longrightarrow>
     query (apply_options opts base) = last_or (query base) (settings sets_query cs)"
  by (rule resolve_field [where f = query and sel = sets_query]) (rule step_query)

text \<open>
  C8. Resolution applies the options in the order given (resolving a sequence that is
  split in two is resolving the second half from the result of the first), and each
  scalar field of the resolved configuration (author, title, description, type, token,
  context, client, base URL, query) is the value of the last option call that sets it,
  or the base configuration's value if no call does. Resolution is a function of the
  base configuration and the options only: it neither reads nor changes the outside
  world.
\<close>

theorem resolve_last_option_wins:
  assumes "eval_calls cs = Inr opts"
  shows "author (apply_options opts base) = last_or (author base) (settings sets_author cs)
       \<and> title (apply_options opts base) = last_or (title base) (settings sets_title cs)
       \<and> desc (apply_options opts base) = last_or (desc base) (settings sets_desc cs)
       \<and> typ' (apply_options opts base) = last_or (typ' base) (settings sets_typ cs)
       \<and> tok (apply_options opts base) = last_or (tok base) (settings sets_tok cs)
       \<and> ctx (apply_options opts base) = last_or (ctx base) (settings sets_ctx cs)
       \<and> client (apply_options opts base) = last_or (client base) (settings sets_client cs)
       \<and> baseURL (apply_options opts base) = last_or (baseURL base) (settings sets_baseURL cs)
       \<and> query (apply_options opts base) = last_or (query base) (settings sets_query cs)
       \<and> apply_options (xs @ ys) base = apply_options ys (apply_options xs base)"
  using assms
  by (simp add: resolved_author resolved_title resolved_desc resolved_typ resolved_tok
      resolved_ctx resolved_client resolved_baseURL resolved_query apply_options_append)

theorem resolve_last_option_wins_witness:
  "eval_calls [CallTitle ''a'', CallAuthor ''x'', CallTitle ''b'', CallHeaders [''K'', ''v'']]
     = (Inr [Title ''a'', Author ''x'', Title ''b'', (\<lambda>req. req\<lparr>headers := [''K'', ''v'']\<rparr>)]
          :: panic + unit Option list)
   \<and> title (apply_options
        [Title ''a'', Author ''x'', Title ''b'', (\<lambda>req. req\<lparr>headers := [''K'', ''v'']\<rparr>)]
        ((request0 :: unit request)\<lparr>title := ''f'', tok := ''t''\<rparr>)) = ''b''
   \<and> tok (apply_options
        [Title ''a'', Author ''x'', Title ''b'', (\<lambda>req. req\<lparr>headers := [''K'', ''v'']\<rparr>)]
        ((request0 :: unit request)\<lparr>title := ''f'', tok := ''t''\<rparr>)) = ''t''"
proof -
  let ?cs = "[CallTitle ''a'', CallAuthor ''x'', CallTitle ''b'', CallHeaders [''K'', ''v'']]
               :: unit option_call list"
  let ?opts = "[Title ''a'', Author ''x'', Title ''b'', (\<lambda>req. req\<lparr>headers := [''K'', ''v'']\<rparr>)]
                 :: unit Option list"
  let ?base = "(request0 :: unit request)\<lparr>title := ''f'', tok := ''t''\<rparr>"
  have e: "eval_calls ?cs = Inr ?opts"
    by (simp add: Headers_def)
  have "title (apply_options ?opts ?base) = last_or (title ?base) (settings sets_title ?cs)"
    and "tok (apply_options ?opts ?base) = last_or (tok ?base) (settings sets_tok ?cs)"
    using resolve_last_option_wins [OF e, of ?base "[]" "[]"] by blast+
  then show ?thesis
    using e by (simp add: settings_Cons settings_Nil last_or_Cons last_or_Nil)
qed

subsection \<open>The response of an upload\<close>

lemma upload_cases:
  "upload E r req0 options wld =
     (case upload_request E r (apply_options options req0) of
        Inl err \<Rightarrow> (([], Some err), wld)
      | Inr hr \<Rightarrow>
          (case client_of E (apply_options options req0) hr wld of
             (Inl err, wld') \<Rightarrow> (([], Some err), wld')
           | (Inr resp, wld') \<Rightarrow> (upload_response resp, wld')))"
  by (simp add: upload_def Let_def)

lemma upload_response_never_both:
  "fst (upload_response resp) = [] \<or> snd (upload_response resp) = None"
  by (simp add: upload_response_def split: sum.splits)

lemma upload_never_both:
  "fst (fst (upload E r req0 options wld)) = [] \<or> snd (fst (upload E r req0 options wld)) = None"
  by (simp add: upload_cases upload_response_never_both split: sum.splits prod.splits)

text \<open>
  C3, amended. When the request of an upload executes (it was built and the client
  returned a response) and the response body is read to its end, \<^verbatim>\<open>Upload\<close> returns the
  trimmed body and no error if the status is 201, and otherwise the empty string and
  an error whose message is the trimmed body; so it returns no error exactly when the
  status is 201. When reading the response body fails, \<^verbatim>\<open>Upload\<close> returns the empty
  string and the error of the read, whatever the status is. On every route at all, it
  never returns both a non-empty URL and an error.
\<close>

theorem Upload_succeeds_iff_201:
  "(upload_request E r (apply_options options request0) = Inr hr
      \<and> client_of E (apply_options options request0) hr wld = (Inr resp, wld')
      \<and> ReadAll (RespBody resp) = Inr result
    \<longrightarrow> Upload E r options wld =
          ((if StatusCode resp = 201 then (TrimSpace result, None)
            else ([], Some (errorString (TrimSpace result)))), wld')
      \<and> (snd (fst (Upload E r options wld)) = None \<longleftrightarrow> StatusCode resp = 201)
      \<and> (\<forall>err. snd (fst (Upload E r options wld)) = Some err \<longrightarrow> Error err = TrimSpace result))
   \<and> (upload_request E r (apply_options options request0) = Inr hr
      \<and> client_of E (apply_options options request0) hr wld = (Inr resp, wld')
      \<and> ReadAll (RespBody resp) = Inl rerr
    \<longrightarrow> Upload E r options wld = (([], Some rerr), wld'))
   \<and> (fst (fst (Upload E r options wld)) = [] \<or> snd (fst (Upload E r options wld)) = None)"
proof -
  have "fst (fst (Upload E r options wld)) = [] \<or> snd (fst (Upload E r options wld)) = None"
    by (simp add: Upload_def upload_never_both)
  then show ?thesis
    by (auto simp: Upload_def upload_cases upload_response_def)
qed

lemma TrimSpace_rate_limited: "TrimSpace ''  rate limited\<newline>'' = ''rate limited''"
  by code_simp

lemma TrimSpace_url: "TrimSpace ''https://www.paste.run/abc123\<newline>'' = ''https://www.paste.run/abc123''"
  by code_simp

lemma example_upload_request:
  "\<exists>hr. upload_request (example_stdlib answer) r (apply_options [] request0) = Inr hr"
  by (simp add: upload_request_def NewRequest_def example_stdlib_def resolved_baseURL_def
      request0_def defaultBaseURL_def Let_def)

theorem Upload_succeeds_iff_201_witness:
  "fst (Upload (example_stdlib (Inr (example_response 429 Map.empty
          ''  rate limited\<newline>''))) (Reader [''x''] None) [] [])
     = ([], Some (errorString ''rate limited''))
   \<and> fst (Upload (example_stdlib (Inr (example_response 201 Map.empty
          ''https://www.paste.run/abc123\<newline>''))) (Reader [''x''] None) [] [])
     = (''https://www.paste.run/abc123'', None)
   \<and> fst (Upload (example_stdlib
         (Inr (example_broken_response 500 ''rate lim'' (Foreign ''connection reset''))))
         (Reader [''x''] None) [] [])
     = ([], Some (Foreign ''connection reset''))"
proof -
  let ?r = "Reader [''x''] None :: string reader"
  have sent: "\<exists>hr. upload_request (example_stdlib (Inr resp)) ?r (apply_options [] request0) = Inr hr
      \<and> client_of (example_stdlib (Inr resp)) (apply_options [] request0) hr [] = (Inr resp, [hr])"
    for resp
  proof -
    obtain hr where "upload_request (example_stdlib (Inr resp)) ?r (apply_options [] request0) = Inr hr"
      using example_upload_request by blast
    moreover have "client_of (example_stdlib (Inr resp)) (apply_options [] request0) hr [] = (Inr resp, [hr])"
      by (simp add: client_of_def request0_def example_stdlib_def recording_client_def)
    ultimately show ?thesis by blast
  qed
  have one: "fst (Upload (example_stdlib (Inr (example_response st Map.empty b))) ?r [] [])
     = (if st = 201 then (TrimSpace b, None) else ([], Some (errorString (TrimSpace b))))" for st b
  proof -
    let ?resp = "example_response st Map.empty b"
    obtain hr where hr: "upload_request (example_stdlib (Inr ?resp)) ?r (apply_options [] request0) = Inr hr"
      and c: "client_of (example_stdlib (Inr ?resp)) (apply_options [] request0) hr [] = (Inr ?resp, [hr])"
      using sent by blast
    have b: "ReadAll (RespBody ?resp) = Inr b"
      by (simp add: ReadAll_def example_response_def)
    show ?thesis
      using Upload_succeeds_iff_201 [of "example_stdlib (Inr ?resp)" ?r "[]" hr "[]" ?resp "[hr]" b] hr c b
      by (simp add: example_response_def)
  qed
  have two: "fst (Upload (example_stdlib
         (Inr (example_broken_response 500 ''rate lim'' (Foreign ''connection reset'')))) ?r [] [])
     = ([], Some (Foreign ''connection reset''))"
  proof -
    let ?resp = "example_broken_response 500 ''rate lim'' (Foreign ''connection reset'')"
    obtain hr where hr: "upload_request (example_stdlib (Inr ?resp)) ?r (apply_options [] request0) = Inr hr"
      and c: "client_of (example_stdlib (Inr ?resp)) (apply_options [] request0) hr [] = (Inr ?resp, [hr])"
      using sent by blast
    have b: "ReadAll (RespBody ?resp) = Inl (Foreign ''connection reset'')"
      by (simp add: ReadAll_def example_broken_response_def)
    show ?thesis
      using Upload_succeeds_iff_201 [of "example_stdlib (Inr ?resp)" ?r "[]" hr "[]" ?resp "[hr]" _
                   "Foreign ''connection reset''"] hr c b
      by simp
  qed
  show ?thesis
    by (simp add: one two TrimSpace_rate_limited TrimSpace_url)
qed

lemma example_Upload_answer:
  "fst (Upload (example_stdlib (Inr resp)) r [] []) = upload_response resp"
proof -
  obtain hr where hr: "upload_request (example_stdlib (Inr resp)) r (apply_options [] request0) = Inr hr"
    using example_upload_request by blast
  have "client_of (example_stdlib (Inr resp)) (apply_options [] request0) hr [] = (Inr resp, [hr])"
    by (simp add: client_of_def request0_def example_stdlib_def recording_client_def)
  with hr show ?thesis
    by (simp add: Upload_def upload_cases)
qed

text \<open>
  C3 as stated fails: the client returns a response with status 201 whose body fails
  after some bytes; the request has executed and the status is 201, and \<^verbatim>\<open>Upload\<close>
  returns the error of the read, not the paste URL.
\<close>

theorem Upload_201_body_read_fails_counterexample:
  "StatusCode (example_broken_response 201 ''https://www.paste'' (Foreign ''connection reset'')) = 201
   \<and> fst (Upload (example_stdlib
         (Inr (example_broken_response 201 ''https://www.paste'' (Foreign ''connection reset''))))
         (Reader [''x''] None) [] [])
     = ([], Some (Foreign ''connection reset''))"
  by (simp add: example_Upload_answer upload_response_def ReadAll_def example_broken_response_def)

subsection \<open>Paste references\<close>

lemma HasPrefix_iff: "HasPrefix s pre \<longleftrightarrow> (\<exists>t. s = pre @ t)"
proof
  assume "HasPrefix s pre"
  then have "s = pre @ drop (length pre) s"
    by (metis HasPrefix_def append_take_drop_id)
  then show "\<exists>t. s = pre @ t" ..
next
  assume "\<exists>t. s = pre @ t"
  then show "HasPrefix s pre" by (auto simp: HasPrefix_def)
qed

lemma Index_from_absent:
  "Index_from i s sep = - 1 \<longleftrightarrow> \<not> (\<exists>a b. s = a @ sep @ b)"
proof (induction s arbitrary: i)
  case Nil
  then show ?case by auto
next
  case (Cons c t)
  show ?case
  proof (cases "HasPrefix (c # t) sep")
    case True
    then obtain b where "c # t = [] @ sep @ b" by (auto simp: HasPrefix_iff)
    then have "\<exists>a b. c # t = a @ sep @ b" by blast
    with True show ?thesis by simp
  next
    case False
    have "(\<exists>a b. c # t = a @ sep @ b) \<longleftrightarrow> (\<exists>a b. t = a @ sep @ b)"
    proof
      assume "\<exists>a b. c # t = a @ sep @ b"
      then obtain a b where ab: "c # t = a @ sep @ b" by blast
      show "\<exists>a b. t = a @ sep @ b"
      proof (cases a)
        case Nil
        with ab have "HasPrefix (c # t) sep" by (auto simp: HasPrefix_iff)
        with False show ?thesis by simp
      next
        case (Cons x a')
        with ab have "t = a' @ sep @ b" by simp
        then show ?thesis by blast
      qed
    next
      assume "\<exists>a b. t = a @ sep @ b"
      then obtain a b where "t = a @ sep @ b" by blast
      then have "c # t = (c # a) @ sep @ b" by simp
      then show "\<exists>a b. c # t = a @ sep @ b" by blast
    qed
    with False Cons.IH [of "Suc i"] show ?thesis by simp
  qed
qed

lemma Index_absent: "Index s sep = - 1 \<longleftrightarrow> \<not> (\<exists>a b. s = a @ sep @ b)"
  by (simp add: Index_def Index_from_absent)

lemma ContainsAny_iff: "ContainsAny s cs \<longleftrightarrow> set s \<inter> set cs \<noteq> {}"
  by (auto simp: ContainsAny_def list_ex_iff)

lemma get_cases:
  "get E paste req0 options wld =
     (case get_request E paste (apply_options options req0) of
        Inl err \<Rightarrow> ((PasteInfo0, Some err), wld)
      | Inr hr \<Rightarrow>
          (case client_of E (apply_options options req0) hr wld of
             (Inl err, wld') \<Rightarrow> ((PasteInfo0, Some err), wld')
           | (Inr resp, wld') \<Rightarrow> (get_response E resp, wld')))"
  by (simp add: get_def Let_def)

lemma get_pasteURL_full:
  assumes "set ident \<inter> set ''./#?'' = {}"
  shows "get_pasteURL (''https://www.paste.run/'' @ ident) base
           = Inr (TrimSuffix base ''/'' @ ''/'' @ ident @ ''?raw'')"
proof -
  have "\<exists>a b. ''https://www.paste.run/'' @ ident = a @ ''://'' @ b"
    by (rule exI [of _ "''https''"], rule exI [of _ "''www.paste.run/'' @ ident"]) simp
  then have "Index (''https://www.paste.run/'' @ ident) ''://'' \<noteq> - 1"
    by (simp only: Index_absent not_not)
  moreover have "HasPrefix (''https://www.paste.run/'' @ ident) ''https://www.paste.run/''"
    by (simp only: HasPrefix_iff) blast
  moreover have "\<not> ContainsAny ident ''./#?''"
    using assms by (simp only: ContainsAny_iff not_not)
  ultimately show ?thesis
    by (simp add: get_pasteURL_def Let_def)
qed

lemma clean_no_scheme:
  assumes "set ident \<inter> set ''./#?'' = {}"
  shows "\<not> (\<exists>a b. ident = a @ ''://'' @ b)"
proof
  assume "\<exists>a b. ident = a @ ''://'' @ b"
  then obtain a b where "ident = a @ ''://'' @ b" by blast
  then have "CHR ''/'' \<in> set ident" by simp
  with assms show False by auto
qed

lemma get_pasteURL_bare:
  assumes "set ident \<inter> set ''./#?'' = {}"
  shows "get_pasteURL ident base = Inr (TrimSuffix base ''/'' @ ''/'' @ ident @ ''?raw'')"
proof -
  have "Index ident ''://'' = - 1"
    using clean_no_scheme [OF assms] by (simp add: Index_absent)
  moreover have "\<not> ContainsAny ident ''./#?''"
    using assms by (simp only: ContainsAny_iff not_not)
  ultimately show ?thesis
    by (simp add: get_pasteURL_def)
qed

lemma get_pasteURL_invalid_scheme:
  assumes "\<exists>a b. paste = a @ ''://'' @ b"
    and "\<not> (\<exists>ident. paste = ''https://www.paste.run/'' @ ident \<and> set ident \<inter> set ''./#?'' = {})"
  shows "get_pasteURL paste base = Inl (errorString ''invalid paste URL'')"
proof -
  have i: "Index paste ''://'' \<noteq> - 1"
    using assms(1) by (simp only: Index_absent not_not)
  have "\<not> HasPrefix paste ''https://www.paste.run/''
          \<or> ContainsAny (drop (length ''https://www.paste.run/'') paste) ''./#?''"
  proof (rule ccontr)
    assume "\<not> ?thesis"
    then have h: "HasPrefix paste ''https://www.paste.run/''"
      and c: "\<not> ContainsAny (drop (length ''https://www.paste.run/'') paste) ''./#?''"
      by blast+
    from h obtain t where t: "paste = ''https://www.paste.run/'' @ t"
      by (auto simp only: HasPrefix_iff)
    then have "drop (length ''https://www.paste.run/'') paste = t" by simp
    with c have "set t \<inter> set ''./#?'' = {}" by (simp only: ContainsAny_iff not_not)
    with t assms(2) show False by blast
  qed
  with i show ?thesis
    by (simp only: get_pasteURL_def Let_def if_True simp_thms)
qed

lemma get_pasteURL_invalid_bare:
  assumes "\<not> (\<exists>a b. paste = a @ ''://'' @ b)" and "set paste \<inter> set ''./#?'' \<noteq> {}"
  shows "get_pasteURL paste base = Inl (errorString ''invalid paste URL'')"
proof -
  have "Index paste ''://'' = - 1"
    using assms(1) by (simp add: Index_absent)
  moreover have "ContainsAny paste ''./#?''"
    using assms(2) by (simp only: ContainsAny_iff simp_thms)
  ultimately show ?thesis
    by (simp add: get_pasteURL_def)
qed

lemma Get_invalid:
  assumes "get_pasteURL paste (resolved_baseURL (apply_options options request0)) = Inl err"
  shows "Get E paste options wld = ((PasteInfo0, Some err), wld)"
  using assms by (simp add: Get_def get_cases get_request_def)

lemma Get_valid:
  assumes "get_pasteURL paste (resolved_baseURL (apply_options options request0)) = Inr u"
    and "url_Parse E u = None"
  shows "\<exists>hr. Method hr = ''GET'' \<and> URL hr = u \<and> Body hr = None
           \<and> get_request E paste (apply_options options request0) = Inr hr
           \<and> Get E paste options wld =
               (case client_of E (apply_options options request0) hr wld of
                  (Inl err, wld') \<Rightarrow> ((PasteInfo0, Some err), wld')
                | (Inr resp, wld') \<Rightarrow> (get_response E resp, wld'))"
  using assms
  by (simp add: Get_def get_cases get_request_def NewRequest_def with_ctx_and_token_def
      WithContext_def Let_def split: option.splits)

text \<open>
  C4. A paste reference that contains \<^verbatim>\<open>://\<close> must be \<^verbatim>\<open>https://www.paste.run/\<close> followed by
  an identifier with none of the characters \<^verbatim>\<open>. / # ?\<close>, and a reference without \<^verbatim>\<open>://\<close>
  must have none of these characters; otherwise \<^verbatim>\<open>Get\<close> returns the error
  \<^verbatim>\<open>invalid paste URL\<close> and the outside world is as it was (no request was sent). For
  a valid reference with identifier \<open>ident\<close>, bare or after the prefix, the URL to fetch
  is the resolved base URL without its trailing slash, then \<^verbatim>\<open>/\<close>, the identifier and
  \<^verbatim>\<open>?raw\<close>; when that URL parses, the client is called with a GET request for it.
\<close>

theorem Get_validates_reference:
  "((\<exists>a b. paste = a @ ''://'' @ b)
      \<and> \<not> (\<exists>ident. paste = ''https://www.paste.run/'' @ ident \<and> set ident \<inter> set ''./#?'' = {})
    \<longrightarrow> Get E paste options wld = ((PasteInfo0, Some (errorString ''invalid paste URL'')), wld))
   \<and> (\<not> (\<exists>a b. paste = a @ ''://'' @ b) \<and> set paste \<inter> set ''./#?'' \<noteq> {}
    \<longrightarrow> Get E paste options wld = ((PasteInfo0, Some (errorString ''invalid paste URL'')), wld))
   \<and> (set ident \<inter> set ''./#?'' = {} \<and> (paste = ident \<or> paste = ''https://www.paste.run/'' @ ident)
    \<longrightarrow> (let req = apply_options options request0;
              u = TrimSuffix (resolved_baseURL req) ''/'' @ ''/'' @ ident @ ''?raw''
          in get_pasteURL paste (resolved_baseURL req) = Inr u
             \<and> (url_Parse E u = None \<longrightarrow>
                  (\<exists>hr. Method hr = ''GET'' \<and> URL hr = u \<and> Body hr = None
                     \<and> Get E paste options wld =
                         (case client_of E req hr wld of
                            (Inl err, wld') \<Rightarrow> ((PasteInfo0, Some err), wld')
                          | (Inr resp, wld') \<Rightarrow> (get_response E resp, wld'))))))"
proof (intro conjI impI)
  assume "(\<exists>a b. paste = a @ ''://'' @ b)
      \<and> \<not> (\<exists>ident. paste = ''https://www.paste.run/'' @ ident \<and> set ident \<inter> set ''./#?'' = {})"
  then show "Get E paste options wld = ((PasteInfo0, Some (errorString ''invalid paste URL'')), wld)"
    by (intro Get_invalid get_pasteURL_invalid_scheme) blast+
next
  assume "\<not> (\<exists>a b. paste = a @ ''://'' @ b) \<and> set paste \<inter> set ''./#?'' \<noteq> {}"
  then show "Get E paste options wld = ((PasteInfo0, Some (errorString ''invalid paste URL'')), wld)"
    by (intro Get_invalid get_pasteURL_invalid_bare) blast+
next
  assume a: "set ident \<inter> set ''./#?'' = {} \<and> (paste = ident \<or> paste = ''https://www.paste.run/'' @ ident)"
  let ?req = "apply_options options request0"
  let ?u = "TrimSuffix (resolved_baseURL ?req) ''/'' @ ''/'' @ ident @ ''?raw''"
  have u: "get_pasteURL paste (resolved_baseURL ?req) = Inr ?u"
    using a get_pasteURL_bare [of ident] get_pasteURL_full [of ident] by blast
  have "url_Parse E ?u = None \<Longrightarrow>
          \<exists>hr. Method hr = ''GET'' \<and> URL hr = ?u \<and> Body hr = None
             \<and> Get E paste options wld =
                 (case client_of E ?req hr wld of
                    (Inl err, wld') \<Rightarrow> ((PasteInfo0, Some err), wld')
                  | (Inr resp, wld') \<Rightarrow> (get_response E resp, wld'))"
    using Get_valid [OF u] by blast
  with u show "let req = apply_options options request0;
              u = TrimSuffix (resolved_baseURL req) ''/'' @ ''/'' @ ident @ ''?raw''
          in get_pasteURL paste (resolved_baseURL req) = Inr u
             \<and> (url_Parse E u = None \<longrightarrow>
                  (\<exists>hr. Method hr = ''GET'' \<and> URL hr = u \<and> Body hr = None
                     \<and> Get E paste options wld =
                         (case client_of E req hr wld of
                            (Inl err, wld') \<Rightarrow> ((PasteInfo0, Some err), wld')
                          | (Inr resp, wld') \<Rightarrow> (get_response E resp, wld'))))"
    unfolding Let_def by blast
qed

lemma example_url_Parse_ok:
  "\<not> list_ex (\<lambda>c. (of_char c :: nat) < 32) u \<Longrightarrow> url_Parse (example_stdlib answer) u = None"
  by (simp add: example_stdlib_def)

lemma example_client_of:
  "client req = None \<Longrightarrow> client_of (example_stdlib answer) req hr sent = (answer, sent @ [hr])"
  by (simp add: client_of_def example_stdlib_def recording_client_def)

lemma client_request0: "client request0 = None"
  by (simp add: request0_def)

lemma example_base: "TrimSuffix (resolved_baseURL (apply_options [] request0)) ''/'' = ''https://api.paste.run''"
  by (simp add: resolved_baseURL_def request0_def defaultBaseURL_def TrimSuffix_def HasSuffix_def)

theorem Get_validates_reference_witness:
  "map URL (snd (Get (example_stdlib (Inr (example_response 200 Map.empty ''body''))) ''abc123'' [] []))
     = [''https://api.paste.run/abc123?raw'']
   \<and> map URL (snd (Get (example_stdlib (Inr (example_response 200 Map.empty ''body'')))
        ''https://www.paste.run/abc123'' [] []))
     = [''https://api.paste.run/abc123?raw'']
   \<and> Get (example_stdlib (Inr (example_response 200 Map.empty ''body'')))
        ''https://evil.example/abc123'' [] []
     = ((PasteInfo0, Some (errorString ''invalid paste URL'')), [])
   \<and> Get (example_stdlib (Inr (example_response 200 Map.empty ''body''))) ''abc/123'' [] []
     = ((PasteInfo0, Some (errorString ''invalid paste URL'')), [])
   \<and> Get (example_stdlib (Inr (example_response 200 Map.empty ''body''))) ''abc?x'' [] []
     = ((PasteInfo0, Some (errorString ''invalid paste URL'')), [])"
proof -
  let ?E = "example_stdlib (Inr (example_response 200 Map.empty ''body''))"
  have ok: "map URL (snd (Get ?E paste [] [])) = [''https://api.paste.run/abc123?raw'']"
    if "paste = ''abc123'' \<or> paste = ''https://www.paste.run/'' @ ''abc123''" for paste
  proof -
    have p: "url_Parse ?E ''https://api.paste.run/abc123?raw'' = None"
      by (rule example_url_Parse_ok) simp
    have "set ''abc123'' \<inter> set ''./#?'' = {}" by simp
    with that p Get_validates_reference [of paste ?E "[]" "[]" "''abc123''"]
    obtain hr where "URL hr = ''https://api.paste.run/abc123?raw''"
      and "Get ?E paste [] [] =
             (case client_of ?E (apply_options [] request0) hr [] of
                (Inl err, wld') \<Rightarrow> ((PasteInfo0, Some err), wld')
              | (Inr resp, wld') \<Rightarrow> (get_response ?E resp, wld'))"
      unfolding Let_def example_base by auto
    then show ?thesis
      by (simp add: example_client_of client_request0)
  qed
  have evil: "Get ?E ''https://evil.example/abc123'' [] []
                = ((PasteInfo0, Some (errorString ''invalid paste URL'')), [])"
  proof -
    have "''https://evil.example/abc123'' = ''https'' @ ''://'' @ ''evil.example/abc123''" by simp
    then have "\<exists>a b. ''https://evil.example/abc123'' = a @ ''://'' @ b" by blast
    moreover have "\<not> (\<exists>ident. ''https://evil.example/abc123'' = ''https://www.paste.run/'' @ ident
                      \<and> set ident \<inter> set ''./#?'' = {})" by simp
    ultimately show ?thesis
      using Get_validates_reference [of "''https://evil.example/abc123''" ?E "[]" "[]"] by blast
  qed
  have bare: "Get ?E paste [] [] = ((PasteInfo0, Some (errorString ''invalid paste URL'')), [])"
    if "Index paste ''://'' = - 1" and "set paste \<inter> set ''./#?'' \<noteq> {}" for paste
    using that Get_validates_reference [of paste ?E "[]" "[]"] by (simp add: Index_absent)
  have "Index ''abc/123'' ''://'' = - 1" and "Index ''abc?x'' ''://'' = - 1"
    by code_simp+
  then show ?thesis
    using ok [of "''abc123''"] ok [of "''https://www.paste.run/abc123''"] evil
      bare [of "''abc/123''"] bare [of "''abc?x''"]
    by simp
qed

subsection \<open>Request headers\<close>

lemma drop_two:
  assumes "i + 1 < length hs"
  shows "drop i hs = hs ! i # hs ! (i + 1) # drop (i + 2) hs"
proof -
  have "drop i hs = hs ! i # drop (Suc i) hs"
    using assms by (simp add: Cons_nth_drop_Suc)
  moreover have "drop (Suc i) hs = hs ! (Suc i) # drop (Suc (Suc i)) hs"
    using assms by (simp add: Cons_nth_drop_Suc)
  ultimately show ?thesis by simp
qed

lemma pairs_short: "\<not> i + 1 < length hs \<Longrightarrow> pairs (drop i hs) = []"
proof -
  assume "\<not> i + 1 < length hs"
  then have "length (drop i hs) \<le> 1" by simp
  then show ?thesis
    by (cases "drop i hs" rule: pairs.cases) auto
qed

lemma set_headers_from:
  "set_headers i hs h = set_pairs h (pairs (drop i hs))"
proof (induction i hs h rule: set_headers.induct)
  case (1 i hs h)
  show ?case
  proof (cases "i + 1 < length hs")
    case True
    then show ?thesis
      using "1.IH" [OF True] drop_two [OF True]
      by (subst set_headers.simps) (simp add: set_pairs_def)
  next
    case False
    then show ?thesis
      by (subst set_headers.simps) (simp add: pairs_short set_pairs_def)
  qed
qed

lemma set_headers_pairs: "set_headers 0 hs h = set_pairs h (pairs hs)"
  by (simp add: set_headers_from)


lemma Header_Get_Set_same: "Header_Get (Header_Set h key v) key = v"
  by (simp add: Header_Get_def Header_Set_def)

lemma Header_Get_Set:
  "Header_Get (Header_Set h key' v) key =
     (if CanonicalMIMEHeaderKey key' = CanonicalMIMEHeaderKey key then v else Header_Get h key)"
  by (simp add: Header_Get_def Header_Set_def)

lemma Header_Get_set_pairs:
  "Header_Get (set_pairs h kvs) key = last_or (Header_Get h key) (values_for key kvs)"
proof (induction kvs arbitrary: h)
  case Nil
  then show ?case by (simp add: set_pairs_def values_for_def last_or_def)
next
  case (Cons kv kvs)
  obtain k v where kv: "kv = (k, v)" by (cases kv)
  have "set_pairs h (kv # kvs) = set_pairs (Header_Set h k v) kvs"
    by (simp add: set_pairs_def kv)
  then have "Header_Get (set_pairs h (kv # kvs)) key
               = last_or (Header_Get (Header_Set h k v) key) (values_for key kvs)"
    by (simp add: Cons.IH)
  then show ?case
    by (simp add: kv Header_Get_Set values_for_def last_or_def)
qed

lemma canon_Content_Type: "CanonicalMIMEHeaderKey ''Content-Type'' = ''Content-Type''"
  by code_simp

lemma canon_Authorization: "CanonicalMIMEHeaderKey ''Authorization'' = ''Authorization''"
  by code_simp

lemma canon_Accept: "CanonicalMIMEHeaderKey ''Accept'' = ''Accept''"
  by code_simp

lemma Header_with_ctx_and_token:
  "Header (with_ctx_and_token req hr) =
     (if tok req \<noteq> [] then Header_Set (Header hr) ''Authorization'' (''Bearer '' @ tok req)
      else Header hr)"
  by (simp add: with_ctx_and_token_def WithContext_def Let_def split: option.splits)

lemma upload_request_Header:
  assumes "upload_request E r req = Inr hr"
  shows "Header hr =
           (let h = Header_Set (set_headers 0 (headers req) Map.empty) ''Content-Type''
                      (FormDataContentType (boundary E))
            in if tok req \<noteq> [] then Header_Set h ''Authorization'' (''Bearer '' @ tok req) else h)"
  using assms
  by (auto simp: upload_request_def NewRequest_def Let_def Header_with_ctx_and_token
      split: option.splits)

text \<open>
  C9. In the request that \<^verbatim>\<open>upload\<close> hands to the client, the \<^verbatim>\<open>Content-Type\<close> header is
  the multipart writer's content type, with its boundary, whatever the extra headers
  of the configuration are (they are set first); and when the token is not empty the
  \<^verbatim>\<open>Authorization\<close> header is \<^verbatim>\<open>Bearer\<close>, a space and the token, whatever the extra
  headers are (the token is set last).
\<close>

theorem upload_content_type_and_token_win:
  assumes "upload_request E r (apply_options options req0) = Inr hr"
  shows "sent_header ''Content-Type'' hr = FormDataContentType (boundary E)
       \<and> (tok (apply_options options req0) \<noteq> [] \<longrightarrow>
            sent_header ''Authorization'' hr = ''Bearer '' @ tok (apply_options options req0))
       \<and> upload E r req0 options wld =
           (case client_of E (apply_options options req0) hr wld of
              (Inl err, wld') \<Rightarrow> (([], Some err), wld')
            | (Inr resp, wld') \<Rightarrow> (upload_response resp, wld'))"
proof -
  have "CanonicalMIMEHeaderKey ''Authorization'' \<noteq> CanonicalMIMEHeaderKey ''Content-Type''"
    by (simp add: canon_Authorization canon_Content_Type)
  then show ?thesis
    using assms
    by (simp add: sent_header_def upload_request_Header [OF assms] Let_def Header_Get_Set
        upload_cases)
qed

lemma upload_request_ok:
  "url_Parse E (resolved_baseURL req) = None \<Longrightarrow> \<exists>hr. upload_request E r req = Inr hr"
  by (simp add: upload_request_def NewRequest_def Let_def)

lemma example_default_base_ok:
  "baseURL req = [] \<Longrightarrow> url_Parse (example_stdlib answer) (resolved_baseURL req) = None"
  by (simp add: example_stdlib_def resolved_baseURL_def defaultBaseURL_def)

theorem upload_content_type_and_token_win_witness:
  "map (sent_header ''Content-Type'')
     (snd (call_with (Upload (example_stdlib (Inl EOF)) (Reader [''x''] None))
        [CallHeaders [''content-type'', ''text/plain'', ''Authorization'', ''Basic abc''],
         CallToken ''secret''] []))
     = [''multipart/form-data; boundary=0123456789abcdef'']
   \<and> map (sent_header ''Authorization'')
     (snd (call_with (Upload (example_stdlib (Inl EOF)) (Reader [''x''] None))
        [CallHeaders [''content-type'', ''text/plain'', ''Authorization'', ''Basic abc''],
         CallToken ''secret''] []))
     = [''Bearer secret'']"
proof -
  let ?E = "example_stdlib (Inl EOF)"
  let ?r = "Reader [''x''] None :: string reader"
  let ?opts = "[(\<lambda>req. req\<lparr>headers := [''content-type'', ''text/plain'', ''Authorization'', ''Basic abc'']\<rparr>),
                Token ''secret''] :: http_request list Option list"
  have "baseURL (apply_options ?opts request0) = []"
    by (simp add: Token_def request0_def)
  then obtain hr where hr: "upload_request ?E ?r (apply_options ?opts request0) = Inr hr"
    using upload_request_ok example_default_base_ok by blast
  from upload_content_type_and_token_win [OF hr, of "[]"]
  have "sent_header ''Content-Type'' hr = ''multipart/form-data; boundary=0123456789abcdef''"
    and "sent_header ''Authorization'' hr = ''Bearer secret''"
    and "upload ?E ?r request0 ?opts [] = (([], Some EOF), [hr])"
    by (simp_all add: Token_def client_of_def request0_def example_stdlib_def
        recording_client_def FormDataContentType_def)
  then show ?thesis
    by (simp add: call_with_def Headers_def Upload_def)
qed

subsection \<open>Header lists of odd length\<close>











subsection \<open>The catalog query\<close>

lemma getLanguages_cases:
  "getLanguages E req0 options wld =
     (case getLanguages_request E (apply_options options req0) of
        Inl err \<Rightarrow> (([], Some err), wld)
      | Inr hr \<Rightarrow>
          (case client_of E (apply_options options req0) hr wld of
             (Inl err, wld') \<Rightarrow> (([], Some err), wld')
           | (Inr resp, wld') \<Rightarrow> (getLanguages_response E resp, wld')))"
  by (simp add: getLanguages_def Let_def)

lemma getLanguages_request_ok:
  assumes "url_Parse E (languages_url req) = None"
  shows "\<exists>hr. getLanguages_request E req = Inr hr \<and> Method hr = ''GET''
           \<and> URL hr = languages_url req \<and> Body hr = None
           \<and> Header hr =
               (let h = set_headers 0 (headers req)
                          (Header_Set Map.empty ''Accept'' ''application/json'')
                in if tok req \<noteq> [] then Header_Set h ''Authorization'' (''Bearer '' @ tok req)
                   else h)"
proof (cases "query req = []")
  case True
  with assms show ?thesis
    by (simp add: getLanguages_request_def languages_url_def NewRequest_def Let_def
        with_ctx_and_token_def WithContext_def split: option.splits)
next
  case False
  with assms show ?thesis
    by (simp add: getLanguages_request_def languages_url_def NewRequest_def Let_def
        with_ctx_and_token_def WithContext_def split: option.splits)
qed

lemma Accept_after_headers:
  "Header_Get (set_headers 0 hs (Header_Set Map.empty ''Accept'' ''application/json'')) ''Accept''
     = last_or ''application/json'' (values_for ''Accept'' (pairs hs))"
  by (simp add: set_headers_pairs Header_Get_set_pairs Header_Get_Set_same)

lemma upperhex_alnum: "isAlnum (upperhex n)"
proof -
  have "\<forall>c \<in> set ''0123456789ABCDEF''. isAlnum c"
    by (simp add: isAlnum_def)
  moreover have "''0123456789ABCDEF'' ! (n mod 16) \<in> set ''0123456789ABCDEF''"
    by (rule nth_mem) simp
  ultimately show ?thesis
    unfolding upperhex_def by blast
qed

lemma escapeByte_safe: "c' \<in> set (escapeByte c) \<Longrightarrow> isAlnum c' \<or> c' \<in> set ''-_.~+%''"
  by (auto simp: escapeByte_def shouldEscape_def upperhex_alnum split: if_splits)

lemma QueryEscape_safe: "c \<in> set (QueryEscape s) \<Longrightarrow> isAlnum c \<or> c \<in> set ''-_.~+%''"
  by (auto simp: QueryEscape_def dest: escapeByte_safe)

text \<open>
  C7, amended. The request of \<^verbatim>\<open>GetLanguages\<close> is a GET for the base URL without its
  trailing slash, \<^verbatim>\<open>/languages\<close>, and \<^verbatim>\<open>?q=\<close> with the escaped query exactly when the
  query is not empty. Its \<^verbatim>\<open>Accept\<close> header is \<^verbatim>\<open>application/json\<close> unless the extra
  headers have a pair whose canonical name is \<^verbatim>\<open>Accept\<close>: then it is the value of the
  last such pair (the extra headers are set after \<^verbatim>\<open>Accept\<close>). For a response with
  status 200 whose body decodes, the result is the decoded \<^verbatim>\<open>results\<close> list as it is,
  whatever the decoded \<^verbatim>\<open>q\<close>. An escaped query consists of letters, digits and
  \<^verbatim>\<open>-_.~+%\<close> only.
\<close>

theorem getLanguages_request_and_results:
  "(url_Parse E (languages_url (apply_options options request0)) = None \<longrightarrow>
      (\<exists>hr. Method hr = ''GET''
         \<and> URL hr = TrimSuffix (resolved_baseURL (apply_options options request0)) ''/''
                      @ ''/languages''
                      @ (if query (apply_options options request0) = [] then []
                         else ''?q='' @ QueryEscape (query (apply_options options request0)))
         \<and> sent_header ''Accept'' hr
             = last_or ''application/json''
                 (values_for ''Accept'' (pairs (headers (apply_options options request0))))
         \<and> GetLanguages E options wld =
             (case client_of E (apply_options options request0) hr wld of
                (Inl err, wld') \<Rightarrow> (([], Some err), wld')
              | (Inr resp, wld') \<Rightarrow> (getLanguages_response E resp, wld'))))
   \<and> (StatusCode resp = 200 \<and> json_Decode E (RespBody resp) = Inr x \<longrightarrow>
        getLanguages_response E resp = (Results x, None))
   \<and> (\<forall>c \<in> set (QueryEscape q). isAlnum c \<or> c \<in> set ''-_.~+%'')"
proof (intro conjI impI ballI)
  let ?req = "apply_options options request0"
  assume "url_Parse E (languages_url ?req) = None"
  then obtain hr where hr: "getLanguages_request E ?req = Inr hr" "Method hr = ''GET''"
    "URL hr = languages_url ?req"
    and h: "Header hr =
               (let h = set_headers 0 (headers ?req)
                          (Header_Set Map.empty ''Accept'' ''application/json'')
                in if tok ?req \<noteq> [] then Header_Set h ''Authorization'' (''Bearer '' @ tok ?req)
                   else h)"
    using getLanguages_request_ok by blast
  have "CanonicalMIMEHeaderKey ''Authorization'' \<noteq> CanonicalMIMEHeaderKey ''Accept''"
    by (simp add: canon_Authorization canon_Accept)
  then have "sent_header ''Accept'' hr
               = last_or ''application/json'' (values_for ''Accept'' (pairs (headers ?req)))"
    by (simp add: sent_header_def h Let_def Header_Get_Set Accept_after_headers)
  moreover have "GetLanguages E options wld =
             (case client_of E ?req hr wld of
                (Inl err, wld') \<Rightarrow> (([], Some err), wld')
              | (Inr resp, wld') \<Rightarrow> (getLanguages_response E resp, wld'))"
    by (simp add: GetLanguages_def getLanguages_cases hr(1))
  ultimately show "\<exists>hr. Method hr = ''GET''
         \<and> URL hr = TrimSuffix (resolved_baseURL ?req) ''/'' @ ''/languages''
                      @ (if query ?req = [] then [] else ''?q='' @ QueryEscape (query ?req))
         \<and> sent_header ''Accept'' hr
             = last_or ''application/json'' (values_for ''Accept'' (pairs (headers ?req)))
         \<and> GetLanguages E options wld =
             (case client_of E ?req hr wld of
                (Inl err, wld') \<Rightarrow> (([], Some err), wld')
              | (Inr resp, wld') \<Rightarrow> (getLanguages_response E resp, wld'))"
    using hr(2,3) unfolding languages_url_def by blast
next
  assume "StatusCode resp = 200 \<and> json_Decode E (RespBody resp) = Inr x"
  then show "getLanguages_response E resp = (Results x, None)"
    by (simp add: getLanguages_response_def)
next
  fix c assume "c \<in> set (QueryEscape q)"
  then show "isAlnum c \<or> c \<in> set ''-_.~+%''" by (rule QueryEscape_safe)
qed

lemma example_languages_url:
  "baseURL req = [] \<Longrightarrow> query req = [] \<Longrightarrow> languages_url req = ''https://api.paste.run/languages''"
  by (simp add: languages_url_def resolved_baseURL_def defaultBaseURL_def TrimSuffix_def
      HasSuffix_def)

lemma QueryEscape_cpp: "QueryEscape ''c++'' = ''c%2B%2B''"
  by code_simp

lemma example_languages_url_cpp:
  "baseURL req = [] \<Longrightarrow> query req = ''c++'' \<Longrightarrow>
     languages_url req = ''https://api.paste.run/languages?q=c%2B%2B''"
  by (simp add: languages_url_def resolved_baseURL_def defaultBaseURL_def TrimSuffix_def
      HasSuffix_def QueryEscape_cpp)

text \<open>
  C7 as stated fails: with the extra headers \<^verbatim>\<open>Accept\<close>, \<^verbatim>\<open>text/plain\<close> the request that
  the client receives carries \<^verbatim>\<open>Accept: text/plain\<close>.
\<close>

theorem getLanguages_Accept_counterexample:
  "map (sent_header ''Accept'')
     (snd (call_with (GetLanguages (example_stdlib (Inl EOF)))
        [CallHeaders [''Accept'', ''text/plain'']] []))
     = [''text/plain'']
   \<and> map (sent_header ''Accept'')
     (snd (call_with (GetLanguages (example_stdlib (Inl EOF)))
        [CallHeaders [''Accept'', ''text/plain'']] []))
     \<noteq> [''application/json'']"
proof -
  let ?E = "example_stdlib (Inl EOF)"
  let ?opts = "[\<lambda>req. req\<lparr>headers := [''Accept'', ''text/plain'']\<rparr>] :: http_request list Option list"
  let ?req = "apply_options ?opts request0"
  have f: "baseURL ?req = []" "query ?req = []" "client ?req = None" "tok ?req = []"
    "headers ?req = [''Accept'', ''text/plain'']"
    by (simp_all add: request0_def)
  have "url_Parse ?E (languages_url ?req) = None"
    unfolding example_languages_url [OF f(1,2)] by (rule example_url_Parse_ok) simp
  then obtain hr where hr: "getLanguages_request ?E ?req = Inr hr"
    and h: "Header hr =
               (let h = set_headers 0 (headers ?req)
                          (Header_Set Map.empty ''Accept'' ''application/json'')
                in if tok ?req \<noteq> [] then Header_Set h ''Authorization'' (''Bearer '' @ tok ?req)
                   else h)"
    using getLanguages_request_ok by blast
  have "sent_header ''Accept'' hr = ''text/plain''"
    unfolding sent_header_def h f Let_def
    by (simp add: Accept_after_headers values_for_def last_or_def canon_Accept)
  moreover have "GetLanguages ?E ?opts [] = (([], Some EOF), [hr])"
    using hr f(3) by (simp add: GetLanguages_def getLanguages_cases example_client_of)
  ultimately show ?thesis
    by (simp add: call_with_def Headers_def)
qed

theorem getLanguages_request_and_results_witness:
  "map URL (snd (GetLanguages (example_stdlib (Inr (example_response 200 Map.empty example_catalog)))
       [Query ''c++''] []))
     = [''https://api.paste.run/languages?q=c%2B%2B'']
   \<and> map (sent_header ''Accept'')
       (snd (GetLanguages (example_stdlib (Inr (example_response 200 Map.empty example_catalog)))
       [Query ''c++''] []))
     = [''application/json'']
   \<and> fst (GetLanguages (example_stdlib (Inr (example_response 200 Map.empty example_catalog)))
       [Query ''c++''] [])
     = ([\<lparr>Name = ''C++'', Class' = ''cpp'', Mode = []\<rparr>, \<lparr>Name = ''C'', Class' = ''c'', Mode = []\<rparr>],
        None)
   \<and> list_all (\<lambda>c. isAlnum c \<or> c \<in> set ''-_.~+%'') (QueryEscape ''c++ /?'')"
proof -
  let ?resp = "example_response 200 Map.empty example_catalog"
  let ?E = "example_stdlib (Inr ?resp)"
  let ?opts = "[Query ''c++''] :: http_request list Option list"
  let ?req = "apply_options ?opts request0"
  let ?x = "\<lparr>Q = [], Results = [\<lparr>Name = ''C++'', Class' = ''cpp'', Mode = []\<rparr>,
                                  \<lparr>Name = ''C'', Class' = ''c'', Mode = []\<rparr>]\<rparr>"
  have f: "baseURL ?req = []" "query ?req = ''c++''" "client ?req = None" "headers ?req = []"
    by (simp_all add: request0_def Query_def)
  have p: "url_Parse ?E (languages_url ?req) = None"
    unfolding example_languages_url_cpp [OF f(1,2)] by (rule example_url_Parse_ok) simp
  have d: "StatusCode ?resp = 200 \<and> json_Decode ?E (RespBody ?resp) = Inr ?x"
    by (simp add: example_response_def example_stdlib_def ReadAll_def)
  note inst = getLanguages_request_and_results [of ?E ?opts "[]" ?resp ?x "''c++ /?''"]
  from inst p obtain hr where
    u: "URL hr = TrimSuffix (resolved_baseURL ?req) ''/'' @ ''/languages''
                @ (if query ?req = [] then [] else ''?q='' @ QueryEscape (query ?req))"
    and a: "sent_header ''Accept'' hr
           = last_or ''application/json'' (values_for ''Accept'' (pairs (headers ?req)))"
    and g: "GetLanguages ?E ?opts [] =
           (case client_of ?E ?req hr [] of
              (Inl err, wld') \<Rightarrow> (([], Some err), wld')
            | (Inr resp, wld') \<Rightarrow> (getLanguages_response ?E resp, wld'))"
    by blast
  from inst d have r: "getLanguages_response ?E ?resp = (Results ?x, None)"
    by blast
  from inst have q: "\<forall>c \<in> set (QueryEscape ''c++ /?''). isAlnum c \<or> c \<in> set ''-_.~+%''"
    by blast
  have u': "URL hr = ''https://api.paste.run/languages?q=c%2B%2B''"
    by (rule trans [OF u example_languages_url_cpp [OF f(1,2), unfolded languages_url_def]])
  have a': "sent_header ''Accept'' hr = ''application/json''"
    unfolding a f(4) by (simp add: values_for_def last_or_def)
  have g': "GetLanguages ?E ?opts [] = ((Results ?x, None), [hr])"
    unfolding g example_client_of [OF f(3)] by (simp add: r)
  show ?thesis
    unfolding g' using u' a' q by (simp add: list_all_iff)
qed

subsection \<open>The timestamps of a paste\<close>

lemma canon_Created_At: "CanonicalMIMEHeaderKey ''Created-At'' = ''Created-At''"
  by code_simp

lemma canon_Expires: "CanonicalMIMEHeaderKey ''Expires'' = ''Expires''"
  by code_simp

lemma Header_Get_absent: "h (CanonicalMIMEHeaderKey key) = None \<Longrightarrow> Header_Get h key = []"
  by (simp add: Header_Get_def)

lemma get_response_200:
  assumes "StatusCode resp = 200"
  shows "snd (get_response E resp) = None"
    and "Created (fst (get_response E resp))
           = parsed_time E TimeFormat (Header_Get (RespHeader resp) ''Created-At'')"
    and "Expires (fst (get_response E resp))
           = parsed_time E TimeFormat (Header_Get (RespHeader resp) ''Expires'')"
    and "Content (fst (get_response E resp)) = RespBody resp"
  using assms by (simp_all add: get_response_def Let_def)

text \<open>
  C6. When \<^verbatim>\<open>Get\<close> receives a response with status 200 it returns a \<^verbatim>\<open>PasteInfo\<close> and no
  error, whatever the headers are. \<^verbatim>\<open>Created\<close> is what \<^verbatim>\<open>time.Parse\<close> with the HTTP date
  layout leaves for the value of \<^verbatim>\<open>Created-At\<close>, and \<^verbatim>\<open>Expires\<close> what it leaves for the
  value of \<^verbatim>\<open>Expires\<close>, each on its own: the parsed time, or the zero time when the
  value does not parse. An absent header reads as the empty string, so it gives the
  zero time as well, \<^verbatim>\<open>time.Parse\<close> rejecting the empty string.
\<close>

theorem Get_timestamps_degrade_to_zero:
  assumes "get_request E paste (apply_options options request0) = Inr hr"
    and "client_of E (apply_options options request0) hr wld = (Inr resp, wld')"
    and "StatusCode resp = 200"
  shows "\<exists>info. Get E paste options wld = ((info, None), wld')
     \<and> Created info = parsed_time E TimeFormat (Header_Get (RespHeader resp) ''Created-At'')
     \<and> Expires info = parsed_time E TimeFormat (Header_Get (RespHeader resp) ''Expires'')
     \<and> ((\<exists>e. time_Parse E TimeFormat (Header_Get (RespHeader resp) ''Created-At'') = Inl e)
          \<longrightarrow> Created info = zeroTime)
     \<and> ((\<exists>e. time_Parse E TimeFormat (Header_Get (RespHeader resp) ''Expires'') = Inl e)
          \<longrightarrow> Expires info = zeroTime \<and> IsZero (Expires info))
     \<and> (\<forall>t. time_Parse E TimeFormat (Header_Get (RespHeader resp) ''Created-At'') = Inr t
          \<longrightarrow> Created info = t)
     \<and> (\<forall>t. time_Parse E TimeFormat (Header_Get (RespHeader resp) ''Expires'') = Inr t
          \<longrightarrow> Expires info = t)
     \<and> (RespHeader resp ''Created-At'' = None \<and> (\<exists>e. time_Parse E TimeFormat [] = Inl e)
          \<longrightarrow> Created info = zeroTime)
     \<and> (RespHeader resp ''Expires'' = None \<and> (\<exists>e. time_Parse E TimeFormat [] = Inl e)
          \<longrightarrow> Expires info = zeroTime \<and> IsZero (Expires info))"
proof -
  let ?info = "fst (get_response E resp)"
  have "Get E paste options wld = (get_response E resp, wld')"
    using assms(1,2) by (simp add: Get_def get_cases)
  moreover have "get_response E resp = (?info, None)"
    using get_response_200(1) [OF assms(3), of E] by (simp add: prod_eq_iff)
  ultimately have g: "Get E paste options wld = ((?info, None), wld')"
    by simp
  have c: "Created ?info = parsed_time E TimeFormat (Header_Get (RespHeader resp) ''Created-At'')"
    and e: "Expires ?info = parsed_time E TimeFormat (Header_Get (RespHeader resp) ''Expires'')"
    using assms(3) by (simp_all add: get_response_def Let_def)
  have ac: "Header_Get (RespHeader resp) ''Created-At'' = []" if "RespHeader resp ''Created-At'' = None"
    using that by (simp add: Header_Get_absent canon_Created_At)
  have ae: "Header_Get (RespHeader resp) ''Expires'' = []" if "RespHeader resp ''Expires'' = None"
    using that by (simp add: Header_Get_absent canon_Expires)
  show ?thesis
    apply (rule exI [of _ ?info])
    apply (simp only: g c e simp_thms)
    apply (intro conjI impI allI)
           apply (auto simp: parsed_time_def zeroTime_def IsZero_def ac ae)
    done
qed

lemma example_get_request:
  "\<exists>hr. get_request (example_stdlib answer) ''abc123'' (apply_options [] request0) = Inr hr"
proof -
  let ?req = "apply_options [] request0 :: http_request list request"
  let ?u = "TrimSuffix (resolved_baseURL ?req) ''/'' @ ''/'' @ ''abc123'' @ ''?raw''"
  have "set ''abc123'' \<inter> set ''./#?'' = {}" by simp
  then have u: "get_pasteURL ''abc123'' (resolved_baseURL ?req) = Inr ?u"
    by (rule get_pasteURL_bare)
  have p: "url_Parse (example_stdlib answer) ?u = None"
    unfolding example_base by (rule example_url_Parse_ok) simp
  from Get_valid [OF u p, of "[]"] show ?thesis
    by blast
qed

lemma example_time_Parse:
  "time_Parse (example_stdlib answer) layout v
     = (if v = ''Sun, 06 Nov 1994 08:49:37 GMT'' then Inr (Time 62919708577)
        else Inl (Foreign ''parsing time: cannot parse''))"
  by (simp add: example_stdlib_def)

theorem Get_timestamps_degrade_to_zero_witness:
  "snd (fst (Get (example_stdlib (Inr (example_response 200
        (Map.empty(''Created-At'' \<mapsto> [''Sun, 06 Nov 1994 08:49:37 GMT''])) ''body'')))
        ''abc123'' [] [])) = None
   \<and> Created (fst (fst (Get (example_stdlib (Inr (example_response 200
        (Map.empty(''Created-At'' \<mapsto> [''Sun, 06 Nov 1994 08:49:37 GMT''])) ''body'')))
        ''abc123'' [] []))) = Time 62919708577
   \<and> Expires (fst (fst (Get (example_stdlib (Inr (example_response 200
        (Map.empty(''Created-At'' \<mapsto> [''Sun, 06 Nov 1994 08:49:37 GMT''])) ''body'')))
        ''abc123'' [] []))) = zeroTime
   \<and> snd (fst (Get (example_stdlib (Inr (example_response 200
        (Map.empty(''Created-At'' \<mapsto> [''yesterday''],
                   ''Expires'' \<mapsto> [''Sun, 06 Nov 1994 08:49:37 GMT''])) ''body'')))
        ''abc123'' [] [])) = None
   \<and> Created (fst (fst (Get (example_stdlib (Inr (example_response 200
        (Map.empty(''Created-At'' \<mapsto> [''yesterday''],
                   ''Expires'' \<mapsto> [''Sun, 06 Nov 1994 08:49:37 GMT''])) ''body'')))
        ''abc123'' [] []))) = zeroTime
   \<and> Expires (fst (fst (Get (example_stdlib (Inr (example_response 200
        (Map.empty(''Created-At'' \<mapsto> [''yesterday''],
                   ''Expires'' \<mapsto> [''Sun, 06 Nov 1994 08:49:37 GMT''])) ''body'')))
        ''abc123'' [] []))) = Time 62919708577"
proof -
  have inst: "\<exists>info. fst (Get (example_stdlib (Inr (example_response 200 h ''body''))) ''abc123'' [] [])
                  = (info, None)
     \<and> ((\<exists>e. time_Parse (example_stdlib (Inr (example_response 200 h ''body''))) TimeFormat
                (Header_Get h ''Created-At'') = Inl e)
          \<longrightarrow> Created info = zeroTime)
     \<and> (\<forall>t. time_Parse (example_stdlib (Inr (example_response 200 h ''body''))) TimeFormat
                (Header_Get h ''Created-At'') = Inr t
          \<longrightarrow> Created info = t)
     \<and> (\<forall>t. time_Parse (example_stdlib (Inr (example_response 200 h ''body''))) TimeFormat
                (Header_Get h ''Expires'') = Inr t
          \<longrightarrow> Expires info = t)
     \<and> (h ''Expires'' = None
          \<and> (\<exists>e. time_Parse (example_stdlib (Inr (example_response 200 h ''body''))) TimeFormat []
                     = Inl e)
          \<longrightarrow> Expires info = zeroTime \<and> IsZero (Expires info))" for h
  proof -
    let ?resp = "example_response 200 h ''body''"
    let ?E = "example_stdlib (Inr ?resp)"
    obtain hr where hr: "get_request ?E ''abc123'' (apply_options [] request0) = Inr hr"
      using example_get_request by blast
    have c: "client_of ?E (apply_options [] request0) hr [] = (Inr ?resp, [hr])"
      by (simp add: example_client_of client_request0)
    have s: "StatusCode ?resp = 200" and h: "RespHeader ?resp = h"
      by (simp_all add: example_response_def)
    from Get_timestamps_degrade_to_zero [OF hr c s] show ?thesis
      unfolding h by auto
  qed
  let ?date = "''Sun, 06 Nov 1994 08:49:37 GMT''"
  have 1: "snd (fst (Get (example_stdlib (Inr (example_response 200
              (Map.empty(''Created-At'' \<mapsto> [?date])) ''body''))) ''abc123'' [] [])) = None
     \<and> Created (fst (fst (Get (example_stdlib (Inr (example_response 200
              (Map.empty(''Created-At'' \<mapsto> [?date])) ''body''))) ''abc123'' [] [])))
          = Time 62919708577
     \<and> Expires (fst (fst (Get (example_stdlib (Inr (example_response 200
              (Map.empty(''Created-At'' \<mapsto> [?date])) ''body''))) ''abc123'' [] [])))
          = zeroTime"
    using inst [of "Map.empty(''Created-At'' \<mapsto> [?date])"]
    by (auto simp: example_time_Parse Header_Get_def canon_Created_At canon_Expires)
  have 2: "snd (fst (Get (example_stdlib (Inr (example_response 200
              (Map.empty(''Created-At'' \<mapsto> [''yesterday''], ''Expires'' \<mapsto> [?date])) ''body'')))
              ''abc123'' [] [])) = None
     \<and> Created (fst (fst (Get (example_stdlib (Inr (example_response 200
              (Map.empty(''Created-At'' \<mapsto> [''yesterday''], ''Expires'' \<mapsto> [?date])) ''body'')))
              ''abc123'' [] [])))
          = zeroTime
     \<and> Expires (fst (fst (Get (example_stdlib (Inr (example_response 200
              (Map.empty(''Created-At'' \<mapsto> [''yesterday''], ''Expires'' \<mapsto> [?date])) ''body'')))
              ''abc123'' [] [])))
          = Time 62919708577"
    using inst [of "Map.empty(''Created-At'' \<mapsto> [''yesterday''], ''Expires'' \<mapsto> [?date])"]
    by (auto simp: example_time_Parse Header_Get_def canon_Created_At canon_Expires)
  from 1 2 show ?thesis by simp
qed

subsection \<open>The multipart body of an upload\<close>

lemma flowing_NewWriter: "flowing (NewWriter (Pipe None)) []"
  by (simp add: flowing_def NewWriter_def Pipe_def)

lemma pipe_Write_flowing:
  "room p = None \<Longrightarrow> werr p = None \<Longrightarrow>
     pipe_Write p fr = (None, p\<lparr>delivered := delivered p @ [fr]\<rparr>)"
  by (simp add: pipe_Write_def)

lemma CreatePart_flowing:
  assumes "flowing mw fs"
  shows "\<exists>mw'. CreatePart mw n f = (None, mw') \<and> flowing mw' (fs @ [PartHeader n f])
           \<and> lastpart mw' \<noteq> None"
  using assms
  by (auto simp: flowing_def CreatePart_def pipe_Write_flowing split: option.splits)

lemma part_Write_flowing:
  assumes "flowing mw fs" and "lastpart mw \<noteq> None"
  shows "\<exists>mw'. part_Write mw d = (None, mw') \<and> flowing mw' (fs @ [Data d])
           \<and> lastpart mw' \<noteq> None"
  using assms
  by (auto simp: flowing_def part_Write_def pipe_Write_flowing split: option.splits)

lemma WriteField_flowing:
  assumes "flowing mw fs"
  shows "flowing (snd (WriteField mw n v)) (fs @ [PartHeader n None, Data v])"
proof -
  obtain mw1 where c: "CreatePart mw n None = (None, mw1)"
    and f1: "flowing mw1 (fs @ [PartHeader n None])" and l1: "lastpart mw1 \<noteq> None"
    using CreatePart_flowing [OF assms] by blast
  obtain mw2 where w: "part_Write mw1 v = (None, mw2)"
    and f2: "flowing mw2 ((fs @ [PartHeader n None]) @ [Data v])"
    using part_Write_flowing [OF f1 l1] by blast
  show ?thesis
    using f2 by (simp add: WriteField_def c w)
qed

lemma field_flowing:
  assumes "flowing mw fs"
  shows "flowing (if v \<noteq> [] then snd (WriteField mw n v) else mw) (fs @ field_frames n v)"
  using assms WriteField_flowing [OF assms, of n v] by (simp add: field_frames_def)

lemma write_fields_flowing:
  assumes "flowing mw fs"
  shows "flowing (write_fields req mw)
           (fs @ field_frames ''author'' (author req) @ field_frames ''title'' (title req)
               @ field_frames ''desc'' (desc req) @ field_frames ''type'' (typ' req))"
proof -
  note a = field_flowing [OF assms, of "author req" "''author''"]
  note b = field_flowing [OF a, of "title req" "''title''"]
  note c = field_flowing [OF b, of "desc req" "''desc''"]
  note d = field_flowing [OF c, of "typ' req" "''type''"]
  from d show ?thesis
    by (simp add: write_fields_def Let_def)
qed

lemma io_Copy_flowing:
  assumes "flowing mw fs" and "lastpart mw \<noteq> None"
  shows "\<exists>mw'. io_Copy mw ds er = ((if er = Some EOF then None else er), mw')
           \<and> flowing mw' (fs @ map Data (filter (\<lambda>d. d \<noteq> []) ds))"
  using assms
proof (induction ds arbitrary: mw fs)
  case Nil
  then show ?case by simp
next
  case (Cons d ds)
  show ?case
  proof (cases "d = []")
    case True
    with Cons show ?thesis by simp
  next
    case False
    obtain mw1 where w: "part_Write mw d = (None, mw1)"
      and f1: "flowing mw1 (fs @ [Data d])" and l1: "lastpart mw1 \<noteq> None"
      using part_Write_flowing [OF Cons.prems] by blast
    from Cons.IH [OF f1 l1] False show ?thesis
      by (simp add: w)
  qed
qed

lemma Writer_Close_flowing:
  assumes "flowing mw fs"
  shows "fst (Writer_Close mw) = None"
    and "delivered (out (snd (Writer_Close mw))) = fs @ [Trailer]"
    and "werr (out (snd (Writer_Close mw))) = None"
    and "room (out (snd (Writer_Close mw))) = None"
  using assms
  by (auto simp: flowing_def Writer_Close_def pipe_Write_flowing split: option.splits)

lemma producer_exit_flowing:
  assumes "flowing mw fs"
  shows "producer_exit False mw = \<lparr>delivered = fs @ [Trailer], room = None, werr = Some EOF\<rparr>"
  using Writer_Close_flowing [OF assms]
  by (cases "Writer_Close mw") (simp add: producer_exit_def CloseWithError_def)

lemma producer_exit_closed:
  assumes "flowing mw fs"
  shows "producer_exit True (mw\<lparr>out := CloseWithError (out mw) (Some e)\<rparr>)
           = \<lparr>delivered = fs, room = None, werr = Some e\<rparr>"
  using assms
  by (auto simp: producer_exit_def Writer_Close_def CloseWithError_def pipe_Write_def flowing_def
      split: option.splits)

lemma producer_frames:
  "producer req r (Pipe None) =
     (if fails r = None \<or> fails r = Some EOF
      then \<lparr>delivered = body_frames req (chunks r) @ [Trailer], room = None, werr = Some EOF\<rparr>
      else \<lparr>delivered = body_frames req (chunks r), room = None, werr = fails r\<rparr>)"
proof -
  let ?fs4 = "field_frames ''author'' (author req) @ field_frames ''title'' (title req)
               @ field_frames ''desc'' (desc req) @ field_frames ''type'' (typ' req)"
  have f4: "flowing (write_fields req (NewWriter (Pipe None))) ?fs4"
    using write_fields_flowing [OF flowing_NewWriter, of req] by simp
  obtain mw5 where c5: "CreateFormFile (write_fields req (NewWriter (Pipe None))) ''file'' ''-''
                          = (None, mw5)"
    and f5: "flowing mw5 (?fs4 @ [PartHeader ''file'' (Some ''-'')])"
    and l5: "lastpart mw5 \<noteq> None"
    using CreatePart_flowing [OF f4] unfolding CreateFormFile_def by blast
  obtain mw6 where c6: "io_Copy mw5 (chunks r) (fails r)
                          = ((if fails r = Some EOF then None else fails r), mw6)"
    and f6: "flowing mw6 (body_frames req (chunks r))"
    using io_Copy_flowing [OF f5 l5, of "chunks r" "fails r"]
    by (auto simp: body_frames_def)
  show ?thesis
  proof (cases "fails r = None \<or> fails r = Some EOF")
    case True
    then have "io_Copy mw5 (chunks r) (fails r) = (None, mw6)"
      using c6 by auto
    with True show ?thesis
      by (simp add: producer_def c5 producer_exit_flowing [OF f6])
  next
    case False
    then obtain e where e: "fails r = Some e" "e \<noteq> EOF" by auto
    then have "io_Copy mw5 (chunks r) (fails r) = (Some e, mw6)"
      using c6 by auto
    with False e show ?thesis
      by (simp add: producer_def c5 producer_exit_closed [OF f6])
  qed
qed

lemma split_parts_Data:
  "split_parts (map Data ds @ fs) = (concat ds @ fst (split_parts fs), snd (split_parts fs))"
  by (induction ds) (auto split: prod.splits)

lemma split_parts_field:
  assumes "fst (split_parts fs) = []"
  shows "split_parts (field_frames n v @ fs) = ([], field_part n v @ snd (split_parts fs))"
  using assms
  by (cases "split_parts fs") (simp add: field_frames_def field_part_def)

lemma concat_filter_nonempty: "concat (filter (\<lambda>d. d \<noteq> []) ds) = concat ds"
  by (induction ds) auto

lemma split_parts_body:
  assumes "tail = [] \<or> tail = [Trailer]"
  shows "split_parts (body_frames req ds @ tail) =
     ([], field_part ''author'' (author req) @ field_part ''title'' (title req)
       @ field_part ''desc'' (desc req) @ field_part ''type'' (typ' req)
       @ [(''file'', Some ''-'', concat ds)])"
proof -
  let ?file = "[PartHeader ''file'' (Some ''-'')] @ map Data (filter (\<lambda>d. d \<noteq> []) ds) @ tail"
  have 0: "split_parts ?file = ([], [(''file'', Some ''-'', concat ds)])"
    using assms by (auto simp: split_parts_Data concat_filter_nonempty)
  have 1: "split_parts (field_frames ''type'' (typ' req) @ ?file)
             = ([], field_part ''type'' (typ' req) @ [(''file'', Some ''-'', concat ds)])"
    using split_parts_field [of ?file] 0 by simp
  have 2: "split_parts (field_frames ''desc'' (desc req) @ field_frames ''type'' (typ' req) @ ?file)
             = ([], field_part ''desc'' (desc req) @ field_part ''type'' (typ' req)
                    @ [(''file'', Some ''-'', concat ds)])"
    using split_parts_field [of "field_frames ''type'' (typ' req) @ ?file"] 1 by simp
  have 3: "split_parts (field_frames ''title'' (title req) @ field_frames ''desc'' (desc req)
                          @ field_frames ''type'' (typ' req) @ ?file)
             = ([], field_part ''title'' (title req) @ field_part ''desc'' (desc req)
                    @ field_part ''type'' (typ' req) @ [(''file'', Some ''-'', concat ds)])"
    using split_parts_field
      [of "field_frames ''desc'' (desc req) @ field_frames ''type'' (typ' req) @ ?file"] 2
    by simp
  have 4: "split_parts (field_frames ''author'' (author req) @ field_frames ''title'' (title req)
                          @ field_frames ''desc'' (desc req) @ field_frames ''type'' (typ' req) @ ?file)
             = ([], field_part ''author'' (author req) @ field_part ''title'' (title req)
                    @ field_part ''desc'' (desc req) @ field_part ''type'' (typ' req)
                    @ [(''file'', Some ''-'', concat ds)])"
    using split_parts_field
      [of "field_frames ''title'' (title req) @ field_frames ''desc'' (desc req)
             @ field_frames ''type'' (typ' req) @ ?file"] 3
    by simp
  show ?thesis
    using 4 by (simp add: body_frames_def)
qed

lemma parts_of_producer:
  "parts_of (delivered (producer req r (Pipe None))) =
     field_part ''author'' (author req) @ field_part ''title'' (title req)
       @ field_part ''desc'' (desc req) @ field_part ''type'' (typ' req)
       @ [(''file'', Some ''-'', concat (chunks r))]"
  using split_parts_body [of "[Trailer]" req "chunks r"] split_parts_body [of "[]" req "chunks r"]
  by (simp add: producer_frames parts_of_def)

text \<open>
  When the payload source fails, the producer closes the pipe with that error: a
  consumer that reads the body to its end gets the error, not the end of the stream.
\<close>

lemma producer_closes_with_source_error:
  assumes "fails r = Some e" and "e \<noteq> EOF"
  shows "fails (pipe_reader (producer req r (Pipe None))) = Some e"
  using assms by (simp add: producer_frames pipe_reader_def)

lemma upload_request_Body:
  "upload_request E r req = Inr hr \<Longrightarrow> Body hr = Some (pipe_reader (producer req r (Pipe None)))"
  by (auto simp: upload_request_def NewRequest_def Let_def with_ctx_and_token_def WithContext_def
      split: option.splits)

text \<open>
  C2. For every base configuration, every list of options and every payload source,
  the parts of the body that the producer writes are: the fields \<^verbatim>\<open>author\<close>, \<^verbatim>\<open>title\<close>,
  \<^verbatim>\<open>desc\<close>, \<^verbatim>\<open>type\<close> of the resolved configuration, in this order, each present exactly
  when its value is not empty, and then one part named \<^verbatim>\<open>file\<close> with the file name \<^verbatim>\<open>-\<close>
  whose content is the bytes the source delivered, in their order. The order of the
  parts does not depend on the order of the options: the parts are a function of the
  resolved configuration. When the source ends without an error the body ends with
  the closing boundary and a clean end of stream. The body of the request that
  \<^verbatim>\<open>upload\<close> builds is this body.
\<close>

theorem upload_body_fields_in_fixed_order:
  "parts_of (chunks (pipe_reader (producer (apply_options options req0) r (Pipe None))))
     = field_part ''author'' (author (apply_options options req0))
       @ field_part ''title'' (title (apply_options options req0))
       @ field_part ''desc'' (desc (apply_options options req0))
       @ field_part ''type'' (typ' (apply_options options req0))
       @ [(''file'', Some ''-'', concat (chunks r))]
   \<and> (fails r = None \<or> fails r = Some EOF \<longrightarrow>
        pipe_reader (producer (apply_options options req0) r (Pipe None))
          = Reader (body_frames (apply_options options req0) (chunks r) @ [Trailer]) (Some EOF))
   \<and> (\<forall>hr. upload_request E r (apply_options options req0) = Inr hr \<longrightarrow>
        sent_parts hr
          = field_part ''author'' (author (apply_options options req0))
            @ field_part ''title'' (title (apply_options options req0))
            @ field_part ''desc'' (desc (apply_options options req0))
            @ field_part ''type'' (typ' (apply_options options req0))
            @ [(''file'', Some ''-'', concat (chunks r))])"
proof -
  let ?req = "apply_options options req0"
  have q: "parts_of (chunks (pipe_reader (producer ?req r (Pipe None))))
           = field_part ''author'' (author ?req) @ field_part ''title'' (title ?req)
             @ field_part ''desc'' (desc ?req) @ field_part ''type'' (typ' ?req)
             @ [(''file'', Some ''-'', concat (chunks r))]"
    by (simp add: parts_of_producer pipe_reader_def)
  have p: "pipe_reader (producer ?req r (Pipe None))
             = Reader (body_frames ?req (chunks r) @ [Trailer]) (Some EOF)"
    if "fails r = None \<or> fails r = Some EOF"
    using that by (simp add: producer_frames pipe_reader_def)
  have "sent_parts hr = parts_of (chunks (pipe_reader (producer ?req r (Pipe None))))"
    if "upload_request E r ?req = Inr hr" for hr
    using upload_request_Body [OF that] by (simp add: sent_parts_def)
  with p q show ?thesis by simp
qed

lemma example_upload_sends:
  assumes "baseURL req = []" and "client req = None"
  shows "\<exists>hr. upload_request (example_stdlib answer) r req = Inr hr
           \<and> client_of (example_stdlib answer) req hr [] = (answer, [hr])"
proof -
  obtain hr where "upload_request (example_stdlib answer) r req = Inr hr"
    using upload_request_ok example_default_base_ok [OF assms(1)] by blast
  then show ?thesis
    using example_client_of [OF assms(2)] by simp
qed

theorem upload_body_fields_in_fixed_order_witness:
  "parts_of (chunks (pipe_reader (producer
       (apply_options [Type ''go'', Title ''t'', Author ''a''] (request0 :: http_request list request))
       (Reader [''hello '', ''world''] None) (Pipe None))))
     = [(''author'', None, ''a''), (''title'', None, ''t''), (''type'', None, ''go''),
        (''file'', Some ''-'', ''hello world'')]
   \<and> parts_of (chunks (pipe_reader (producer
       (apply_options [Author ''a'', Title ''t'', Type ''go''] (request0 :: http_request list request))
       (Reader [''hello '', ''world''] None) (Pipe None))))
     = [(''author'', None, ''a''), (''title'', None, ''t''), (''type'', None, ''go''),
        (''file'', Some ''-'', ''hello world'')]
   \<and> fails (pipe_reader (producer
       (apply_options [Author ''a'', Title ''t'', Type ''go''] (request0 :: http_request list request))
       (Reader [''hello '', ''world''] None) (Pipe None)))
     = Some EOF
   \<and> map sent_parts (snd (Upload (example_stdlib (Inl EOF)) (Reader [''hello '', ''world''] None)
       [Author ''a'', Title ''t'', Type ''go''] []))
     = [[(''author'', None, ''a''), (''title'', None, ''t''), (''type'', None, ''go''),
         (''file'', Some ''-'', ''hello world'')]]"
proof -
  let ?E = "example_stdlib (Inl EOF)"
  let ?r = "Reader [''hello '', ''world''] None :: string reader"
  let ?o1 = "[Type ''go'', Title ''t'', Author ''a''] :: http_request list Option list"
  let ?o2 = "[Author ''a'', Title ''t'', Type ''go''] :: http_request list Option list"
  let ?ps = "[(''author'', None, ''a''), (''title'', None, ''t''), (''type'', None, ''go''),
              (''file'', Some ''-'', ''hello world'')]"
  have f1: "field_part ''author'' (author (apply_options ?o1 request0))
             @ field_part ''title'' (title (apply_options ?o1 request0))
             @ field_part ''desc'' (desc (apply_options ?o1 request0))
             @ field_part ''type'' (typ' (apply_options ?o1 request0))
             @ [(''file'', Some ''-'', concat (chunks ?r))] = ?ps"
    and f2: "field_part ''author'' (author (apply_options ?o2 request0))
             @ field_part ''title'' (title (apply_options ?o2 request0))
             @ field_part ''desc'' (desc (apply_options ?o2 request0))
             @ field_part ''type'' (typ' (apply_options ?o2 request0))
             @ [(''file'', Some ''-'', concat (chunks ?r))] = ?ps"
    by (simp_all add: field_part_def Author_def Title_def Type_def request0_def)
  note t1 = upload_body_fields_in_fixed_order [of ?o1 request0 ?r ?E]
  note t2 = upload_body_fields_in_fixed_order [of ?o2 request0 ?r ?E]
  have a: "parts_of (chunks (pipe_reader (producer (apply_options ?o1 request0) ?r (Pipe None)))) = ?ps"
    using t1 [THEN conjunct1] unfolding f1 .
  have b: "parts_of (chunks (pipe_reader (producer (apply_options ?o2 request0) ?r (Pipe None)))) = ?ps"
    using t2 [THEN conjunct1] unfolding f2 .
  have "fails ?r = None \<or> fails ?r = Some EOF" by simp
  with t2 have "pipe_reader (producer (apply_options ?o2 request0) ?r (Pipe None))
          = Reader (body_frames (apply_options ?o2 request0) (chunks ?r) @ [Trailer]) (Some EOF)"
    by blast
  then have c: "fails (pipe_reader (producer (apply_options ?o2 request0) ?r (Pipe None))) = Some EOF"
    by simp
  have "baseURL (apply_options ?o2 request0) = []" and "client (apply_options ?o2 request0) = None"
    by (simp_all add: Author_def Title_def Type_def request0_def)
  then obtain hr where hr: "upload_request ?E ?r (apply_options ?o2 request0) = Inr hr"
    and cl: "client_of ?E (apply_options ?o2 request0) hr [] = (Inl EOF, [hr])"
    using example_upload_sends by blast
  from t2 hr have "sent_parts hr = ?ps"
    unfolding f2 by blast
  moreover have "snd (Upload ?E ?r ?o2 []) = [hr]"
    by (simp only: Upload_def upload_cases hr cl sum.case prod.case snd_conv)
  ultimately have d: "map sent_parts (snd (Upload ?E ?r ?o2 [])) = [?ps]"
    by simp
  from a b c d show ?thesis by blast
qed

text \<open>
  C10. If \<^verbatim>\<open>os.Open\<close> fails, \<^verbatim>\<open>UploadFile\<close> returns that error and the outside world is
  as it was. Otherwise it is \<^verbatim>\<open>upload\<close> of the file from a configuration whose title is
  the base name of the path; the options are applied to that configuration, so the
  resolved title is the value of the last \<^verbatim>\<open>Title\<close> option, or the base name when there
  is none.
\<close>

theorem UploadFile_title_defaults_to_base_name:
  "(os_Open E path = Inl err \<longrightarrow> UploadFile E path options wld = (([], Some err), wld))
   \<and> (os_Open E path = Inr f \<longrightarrow>
        UploadFile E path options wld = upload E f (request0\<lparr>title := Base path\<rparr>) options wld)
   \<and> (eval_calls cs = Inr options \<longrightarrow>
        title (apply_options options (request0\<lparr>title := Base path\<rparr>))
          = last_or (Base path) (settings sets_title cs))"
  by (simp add: UploadFile_def resolved_title)

theorem UploadFile_title_defaults_to_base_name_witness:
  "UploadFile (example_stdlib (Inl EOF)) ''/nope'' [] []
     = (([], Some (Foreign ''open: no such file or directory'')), [])
   \<and> map sent_parts (snd (UploadFile (example_stdlib (Inl EOF)) ''/tmp/notes.txt'' [Author ''a''] []))
     = [[(''author'', None, ''a''), (''title'', None, ''notes.txt''), (''file'', Some ''-'', ''hello'')]]
   \<and> map sent_parts (snd (UploadFile (example_stdlib (Inl EOF)) ''/tmp/notes.txt''
         [Title ''mine'', Author ''a''] []))
     = [[(''author'', None, ''a''), (''title'', None, ''mine''), (''file'', Some ''-'', ''hello'')]]"
proof -
  let ?E = "example_stdlib (Inl EOF)"
  let ?f = "Reader [''hello''] None :: string reader"
  have no: "os_Open ?E ''/nope'' = Inl (Foreign ''open: no such file or directory'')"
    and yes: "os_Open ?E ''/tmp/notes.txt'' = Inr ?f"
    by (simp_all add: example_stdlib_def)
  have base: "Base ''/tmp/notes.txt'' = ''notes.txt''"
    by code_simp
  have 1: "UploadFile ?E ''/nope'' [] [] = (([], Some (Foreign ''open: no such file or directory'')), [])"
    using UploadFile_title_defaults_to_base_name
      [of ?E "''/nope''" "Foreign ''open: no such file or directory''" "[]" "[]"] no
    by blast
  have sent: "map sent_parts (snd (UploadFile ?E ''/tmp/notes.txt'' opts []))
      = [field_part ''author'' (author (apply_options opts (request0\<lparr>title := ''notes.txt''\<rparr>)))
         @ field_part ''title'' (last_or ''notes.txt'' (settings sets_title cs))
         @ field_part ''desc'' (desc (apply_options opts (request0\<lparr>title := ''notes.txt''\<rparr>)))
         @ field_part ''type'' (typ' (apply_options opts (request0\<lparr>title := ''notes.txt''\<rparr>)))
         @ [(''file'', Some ''-'', ''hello'')]]"
    if cs: "eval_calls cs = Inr opts"
      and b: "baseURL (apply_options opts (request0\<lparr>title := ''notes.txt''\<rparr>)) = []"
      and c: "client (apply_options opts (request0\<lparr>title := ''notes.txt''\<rparr>)) = None"
    for opts :: "http_request list Option list" and cs
  proof -
    let ?req = "apply_options opts (request0\<lparr>title := ''notes.txt''\<rparr>)"
    from UploadFile_title_defaults_to_base_name
      [of ?E "''/tmp/notes.txt''" _ opts "[]" ?f cs] yes cs
    have u: "UploadFile ?E ''/tmp/notes.txt'' opts []
               = upload ?E ?f (request0\<lparr>title := ''notes.txt''\<rparr>) opts []"
      and t: "title ?req = last_or ''notes.txt'' (settings sets_title cs)"
      by (simp_all add: base)
    obtain hr where hr: "upload_request ?E ?f ?req = Inr hr"
      and cl: "client_of ?E ?req hr [] = (Inl EOF, [hr])"
      using example_upload_sends [OF b c] by blast
    have "sent_parts hr = parts_of (delivered (producer ?req ?f (Pipe None)))"
      using upload_request_Body [OF hr] by (simp add: sent_parts_def pipe_reader_def)
    then have "sent_parts hr
        = field_part ''author'' (author ?req) @ field_part ''title'' (title ?req)
          @ field_part ''desc'' (desc ?req) @ field_part ''type'' (typ' ?req)
          @ [(''file'', Some ''-'', ''hello'')]"
      by (simp add: parts_of_producer)
    moreover have "snd (UploadFile ?E ''/tmp/notes.txt'' opts []) = [hr]"
      unfolding u by (simp add: upload_cases hr cl)
    ultimately show ?thesis
      by (simp add: t)
  qed
  have 2: "map sent_parts (snd (UploadFile ?E ''/tmp/notes.txt'' [Author ''a''] []))
     = [[(''author'', None, ''a''), (''title'', None, ''notes.txt''), (''file'', Some ''-'', ''hello'')]]"
    using sent [of "[CallAuthor ''a'']" "[Author ''a'']"]
    by (simp add: Author_def request0_def field_part_def settings_Cons settings_Nil last_or_Nil)
  have 3: "map sent_parts (snd (UploadFile ?E ''/tmp/notes.txt'' [Title ''mine'', Author ''a''] []))
     = [[(''author'', None, ''a''), (''title'', None, ''mine''), (''file'', Some ''-'', ''hello'')]]"
    using sent [of "[CallTitle ''mine'', CallAuthor ''a'']" "[Title ''mine'', Author ''a'']"]
    by (simp add: Author_def Title_def request0_def field_part_def settings_Cons settings_Nil
        last_or_Nil last_or_Cons)
  from 1 2 3 show ?thesis by simp
qed

end
